theory Spec2Isabelle
  imports Main
begin

section \<open>Data model\<close>

text \<open>
  The Mongoose schemas of the Tenant and User models. Only the paths read or written by
  the authentication, lockout, quota and registration code are kept; enumerated string
  paths become datatypes, \<open>Number\<close> paths are integers, \<open>Date\<close> paths are
  integers (milliseconds since the epoch) and a \<open>null\<close> or unset path is \<open>None\<close>.
  The path \<open>_id\<close> is \<open>tenant_id\<close> and \<open>user_id\<close>. Records that share a path name
  (\<open>isActive\<close>, \<open>email\<close>, \<open>tenantId\<close>, \<open>role\<close>, \<open>permissions\<close>) are told apart by
  the record's name, as in \<open>user.isActive\<close> and \<open>tenant.isActive\<close>.
\<close>

datatype plan = Free | Pro

datatype subscription_status = Active | Inactive | Suspended | Cancelled

datatype role = Admin | Member

record subscription =
  status :: subscription_status
  startDate :: "int option"
  endDate :: "int option"

record usage =
  currentNoteCount :: int
  currentUserCount :: int
  storageUsed :: int

record tenant =
  tenant_id :: string
  slug :: string
  name :: string
  plan :: plan
  noteLimit :: int
  subscription :: subscription
  usage :: usage
  isActive :: bool

record permissions =
  canCreateNotes :: bool
  canEditNotes :: bool
  canDeleteNotes :: bool
  canShareNotes :: bool
  canManageUsers :: bool
  canManageTenant :: bool

record security =
  lastLogin :: "int option"
  loginAttempts :: int
  lockUntil :: "int option"

record user =
  user_id :: string
  email :: string
  password :: string
  tenantId :: string
  role :: role
  security :: security
  permissions :: permissions
  isActive :: bool

section \<open>Tenant quota gate and plan consistency\<close>

text \<open>The virtuals \<open>hasUnlimitedNotes\<close>, \<open>remainingNotes\<close> and \<open>canCreateNotes\<close> of the
  tenant schema; the last is \<open>tenantCanCreateNotes\<close> here, \<open>canCreateNotes\<close> being the
  user's permission flag as well.\<close>

definition hasUnlimitedNotes :: "tenant \<Rightarrow> bool" where
  "hasUnlimitedNotes t = (noteLimit t = - 1)"

definition remainingNotes :: "tenant \<Rightarrow> int" where
  "remainingNotes t =
     (if hasUnlimitedNotes t then - 1
      else max 0 (noteLimit t - currentNoteCount (usage t)))"

definition tenantCanCreateNotes :: "tenant \<Rightarrow> bool" where
  "tenantCanCreateNotes t =
     (if \<not> tenant.isActive t \<or> status (subscription t) \<noteq> Active then False
      else hasUnlimitedNotes t \<or> currentNoteCount (usage t) < noteLimit t)"

text \<open>
  The tenant schema's \<open>pre('save')\<close> hook. The flag is \<open>this.isModified('plan')\<close>; the
  hook also refreshes \<open>updatedAt\<close>, a path this model does not carry.
\<close>

definition tenantPreSave :: "bool \<Rightarrow> tenant \<Rightarrow> tenant" where
  "tenantPreSave planModified t =
     (if planModified then
        (if plan t = Free \<and> (noteLimit t = - 1 \<or> noteLimit t > 10) then t\<lparr>noteLimit := 3\<rparr>
         else if plan t = Pro \<and> noteLimit t < 10 then t\<lparr>noteLimit := - 1\<rparr>
         else t)
      else t)"

section \<open>Password and lockout engine\<close>

text \<open>
  The virtual \<open>isLocked\<close> and the instance methods \<open>incLoginAttempts\<close> and
  \<open>resetLoginAttempts\<close> of the user schema. Each issues one \<open>updateOne\<close> on the
  stored document; the functions below return the stored security sub-document after
  that update. \<open>now\<close> is the value of \<open>Date.now()\<close> during the call. A path removed by
  \<open>$unset\<close> reads back as its schema default (\<open>0\<close> for \<open>loginAttempts\<close>, \<open>null\<close> for
  \<open>lockUntil\<close>).
\<close>

definition isLocked :: "int \<Rightarrow> security \<Rightarrow> bool" where
  "isLocked now s = (case lockUntil s of None \<Rightarrow> False | Some l \<Rightarrow> l > now)"

definition lockExpired :: "int \<Rightarrow> security \<Rightarrow> bool" where
  "lockExpired now s = (case lockUntil s of None \<Rightarrow> False | Some l \<Rightarrow> l < now)"

definition lockTime :: int where
  "lockTime = 2 * 60 * 60 * 1000"

definition incLoginAttempts :: "int \<Rightarrow> security \<Rightarrow> security" where
  "incLoginAttempts now s =
     (if lockExpired now s then s\<lparr>loginAttempts := 1, lockUntil := None\<rparr>
      else if loginAttempts s + 1 \<ge> 5 \<and> \<not> isLocked now s
        then s\<lparr>loginAttempts := loginAttempts s + 1, lockUntil := Some (now + lockTime)\<rparr>
      else s\<lparr>loginAttempts := loginAttempts s + 1\<rparr>)"

definition resetLoginAttempts :: "int \<Rightarrow> security \<Rightarrow> security" where
  "resetLoginAttempts now s = s\<lparr>loginAttempts := 0, lockUntil := None, lastLogin := Some now\<rparr>"

section \<open>Strings\<close>

text \<open>
  JavaScript strings are sequences of code units; the model covers the code units
  \<open>U+0000\<close> to \<open>U+00FF\<close>, one \<open>char\<close> each. On that range \<open>toLowerCase\<close> moves the
  ASCII capitals and the Latin-1 capitals (\<open>U+00C0\<close> to \<open>U+00DE\<close> without \<open>U+00D7\<close>) up by
  32, and the class \<open>\s\<close> of regular expressions, which is also what \<open>trim\<close> removes,
  holds tab, line feed, vertical tab, form feed, carriage return, space and no-break space.
\<close>

definition isUpper :: "char \<Rightarrow> bool" where
  "isUpper c = (let n = (of_char c :: nat)
                in (65 \<le> n \<and> n \<le> 90) \<or> (192 \<le> n \<and> n \<le> 222 \<and> n \<noteq> 215))"

definition toLowerChar :: "char \<Rightarrow> char" where
  "toLowerChar c = (if isUpper c then char_of (of_char c + (32 :: nat)) else c)"

definition toLowerCase :: "string \<Rightarrow> string" where
  "toLowerCase s = map toLowerChar s"

definition isSpace :: "char \<Rightarrow> bool" where
  "isSpace c = (let n = (of_char c :: nat) in (9 \<le> n \<and> n \<le> 13) \<or> n = 32 \<or> n = 160)"

definition isLowerAlnum :: "char \<Rightarrow> bool" where
  "isLowerAlnum c = (let n = (of_char c :: nat) in (97 \<le> n \<and> n \<le> 122) \<or> (48 \<le> n \<and> n \<le> 57))"

definition isWord :: "char \<Rightarrow> bool" where
  "isWord c = (let n = (of_char c :: nat)
               in (97 \<le> n \<and> n \<le> 122) \<or> (65 \<le> n \<and> n \<le> 90) \<or> (48 \<le> n \<and> n \<le> 57) \<or> n = 95)"

definition trim :: "string \<Rightarrow> string" where
  "trim s = rev (dropWhile isSpace (rev (dropWhile isSpace s)))"

text \<open>\<open>s.replace(/\s+/g, '-')\<close> and \<open>s.replace(/-+/g, '-')\<close>: every maximal run is
  replaced by one hyphen.\<close>

function replaceSpaceRuns :: "string \<Rightarrow> string" where
  "replaceSpaceRuns [] = []"
| "replaceSpaceRuns (c # cs) =
     (if isSpace c then CHR ''-'' # replaceSpaceRuns (dropWhile isSpace cs)
      else c # replaceSpaceRuns cs)"
  by pat_completeness auto
termination
  by (relation "measure length") (auto simp: less_Suc_eq_le length_dropWhile_le)

function replaceHyphenRuns :: "string \<Rightarrow> string" where
  "replaceHyphenRuns [] = []"
| "replaceHyphenRuns (c # cs) =
     (if c = CHR ''-'' then CHR ''-'' # replaceHyphenRuns (dropWhile (\<lambda>d. d = CHR ''-'') cs)
      else c # replaceHyphenRuns cs)"
  by pat_completeness auto
termination
  by (relation "measure length") (auto simp: less_Suc_eq_le length_dropWhile_le)

text \<open>The slug derivation of \<open>register\<close>:
  \<^verbatim>\<open>tenantName.toLowerCase().replace(/[^a-z0-9\s-]/g, '').replace(/\s+/g, '-').replace(/-+/g, '-').trim()\<close>.\<close>

definition deriveSlug :: "string \<Rightarrow> string" where
  "deriveSlug tenantName =
     trim (replaceHyphenRuns (replaceSpaceRuns
       (filter (\<lambda>c. isLowerAlnum c \<or> isSpace c \<or> c = CHR ''-'') (toLowerCase tenantName))))"

section \<open>Token service\<close>

text \<open>
  \<open>utils/jwt.js\<close>. The payload handed to the generators is an object with the six paths
  below; a path that is \<open>undefined\<close> is \<open>None\<close> and is dropped by the serialisation.
  The decoded claims extend it by the type marker, the revocation identifier and the
  registered claims that \<open>jsonwebtoken\<close> adds (times in seconds).
\<close>

record payload =
  userId :: "string option"
  email :: "string option"
  tenantId :: "string option"
  tenantSlug :: "string option"
  role :: "role option"
  permissions :: "permissions option"

record claims = payload +
  tokenType :: "string option"
  jti :: "string option"
  iat :: int
  exp :: int
  iss :: string
  aud :: string

text \<open>
  The library \<open>jsonwebtoken\<close> is outside the repository. A token is modelled
  symbolically: either a string that is no well-formed signed token, or the signed claims
  together with the key that signed them. \<open>jwt_sign\<close> stamps \<open>iat\<close>, \<open>exp\<close>, \<open>iss\<close> and
  \<open>aud\<close>; \<open>jwt_verify\<close> throws (\<open>None\<close>) on a malformed token, a signature made with
  another key, an expired token, or a wrong audience or issuer.
\<close>

datatype token = Raw string | Jws claims string

definition jwt_sign :: "claims \<Rightarrow> string \<Rightarrow> int \<Rightarrow> int \<Rightarrow> string \<Rightarrow> string \<Rightarrow> token" where
  "jwt_sign c key nowSec expiresIn issuer audience =
     Jws (c\<lparr>iat := nowSec, exp := nowSec + expiresIn, iss := issuer, aud := audience\<rparr>) key"

definition jwt_verify :: "token \<Rightarrow> string \<Rightarrow> int \<Rightarrow> string \<Rightarrow> string list \<Rightarrow> claims option" where
  "jwt_verify t key nowSec issuer audiences =
     (case t of
        Raw _ \<Rightarrow> None
      | Jws c k \<Rightarrow>
          if k \<noteq> key then None
          else if nowSec \<ge> exp c then None
          else if aud c \<notin> set audiences then None
          else if iss c \<noteq> issuer then None
          else Some c)"

text \<open>
  The environment of a call: the configuration read from \<open>process.env\<close> (lifetimes in
  seconds; the defaults are \<open>'7d'\<close> and \<open>'30d'\<close>), the clock \<open>Date.now()\<close> in
  milliseconds, the value of \<open>crypto.randomUUID()\<close>, the two \<open>bcryptjs\<close> functions,
  whether \<open>mongoose.connection.readyState === 1\<close>, and the identifiers Mongoose gives
  to new documents.
\<close>

record env =
  JWT_SECRET :: string
  JWT_EXPIRES_IN :: int
  JWT_REFRESH_EXPIRES_IN :: int
  now :: int
  randomUUID :: string
  bcryptCompare :: "string \<Rightarrow> string \<Rightarrow> bool"
  bcryptHash :: "string \<Rightarrow> string"
  connected :: bool
  newTenantId :: string
  newUserId :: string

definition nowSeconds :: "env \<Rightarrow> int" where
  "nowSeconds e = now e div 1000"

definition generateToken :: "env \<Rightarrow> payload \<Rightarrow> token" where
  "generateToken e p =
     jwt_sign
       \<lparr>userId = userId p, email = payload.email p, tenantId = payload.tenantId p,
        tenantSlug = tenantSlug p, role = payload.role p, permissions = payload.permissions p,
        tokenType = Some ''access'', jti = None, iat = 0, exp = 0, iss = [], aud = []\<rparr>
       (JWT_SECRET e) (nowSeconds e) (JWT_EXPIRES_IN e) ''notes-saas'' ''notes-saas-users''"

definition generateRefreshToken :: "env \<Rightarrow> payload \<Rightarrow> token" where
  "generateRefreshToken e p =
     jwt_sign
       \<lparr>userId = userId p, email = None, tenantId = payload.tenantId p,
        tenantSlug = None, role = None, permissions = None,
        tokenType = Some ''refresh'', jti = Some (randomUUID e), iat = 0, exp = 0, iss = [], aud = []\<rparr>
       (JWT_SECRET e) (nowSeconds e) (JWT_REFRESH_EXPIRES_IN e) ''notes-saas'' ''notes-saas-refresh''"

definition verifyToken :: "env \<Rightarrow> token \<Rightarrow> claims option" where
  "verifyToken e t =
     jwt_verify t (JWT_SECRET e) (nowSeconds e) ''notes-saas'' [''notes-saas-users'', ''notes-saas-refresh'']"

text \<open>\<open>extractTokenFromHeader\<close>. The header is given as the list \<open>authHeader.split(' ')\<close>;
  an absent or empty header is \<open>None\<close>.\<close>

definition extractTokenFromHeader :: "token list option \<Rightarrow> token option" where
  "extractTokenFromHeader authHeader =
     (case authHeader of
        None \<Rightarrow> None
      | Some parts \<Rightarrow>
          if length parts \<noteq> 2 \<or> parts ! 0 \<noteq> Raw ''Bearer'' then None else Some (parts ! 1))"

text \<open>JavaScript truthiness of an optional token: \<open>null\<close>, \<open>undefined\<close> and the empty
  string are falsy.\<close>

definition truthy :: "token option \<Rightarrow> bool" where
  "truthy t = (t \<noteq> None \<and> t \<noteq> Some (Raw []))"

section \<open>Credential store and responses\<close>

text \<open>
  The document store holds the user and tenant collections. \<open>findById\<close> and \<open>findOne\<close>
  return the first matching document, \<open>updateOne\<close> on a document rewrites the stored
  document with its \<open>_id\<close>. The store is taken to be reachable; a query throws only
  when its argument cannot be cast to the type of the path it is compared with.

  Every \<open>_id\<close> and the user's \<open>tenantId\<close> are \<open>ObjectId\<close>s, held here as their 24
  lower-case hexadecimal digits, which is also what \<open>toString()\<close> and the JSON of a token
  give. A string is cast to an \<open>ObjectId\<close> when it consists of 24 hexadecimal digits of
  either case; any other string makes the query throw a \<open>CastError\<close> (so Mongoose 8;
  earlier versions also took any string of 12 characters for an \<open>ObjectId\<close>).
  \<open>findById(undefined)\<close> looks for the \<open>_id\<close> \<open>null\<close> and finds nothing.
\<close>

record store =
  users :: "user list"
  tenants :: "tenant list"

definition isHexDigit :: "char \<Rightarrow> bool" where
  "isHexDigit c = (let n = (of_char c :: nat)
                   in (48 \<le> n \<and> n \<le> 57) \<or> (97 \<le> n \<and> n \<le> 102) \<or> (65 \<le> n \<and> n \<le> 70))"

definition castObjectId :: "string \<Rightarrow> string option" where
  "castObjectId s = (if length s = 24 \<and> list_all isHexDigit s then Some (toLowerCase s) else None)"

datatype 'a query = CastError | Result "'a option"

definition findUserById :: "store \<Rightarrow> string option \<Rightarrow> user query" where
  "findUserById st i =
     (case i of
        None \<Rightarrow> Result None
      | Some k \<Rightarrow>
          (case castObjectId k of
             None \<Rightarrow> CastError
           | Some oid \<Rightarrow> Result (find (\<lambda>u. user_id u = oid) (users st))))"

definition findTenantById :: "store \<Rightarrow> string \<Rightarrow> tenant option" where
  "findTenantById st k = find (\<lambda>t. tenant_id t = k) (tenants st)"

definition findTenantBySlug :: "store \<Rightarrow> string \<Rightarrow> tenant option" where
  "findTenantBySlug st k = find (\<lambda>t. slug t = k) (tenants st)"

definition updateUser :: "store \<Rightarrow> string \<Rightarrow> (user \<Rightarrow> user) \<Rightarrow> store" where
  "updateUser st k f = st\<lparr>users := map (\<lambda>u. if user_id u = k then f u else u) (users st)\<rparr>"

definition updateTenant :: "store \<Rightarrow> string \<Rightarrow> (tenant \<Rightarrow> tenant) \<Rightarrow> store" where
  "updateTenant st k f = st\<lparr>tenants := map (\<lambda>t. if tenant_id t = k then f t else t) (tenants st)\<rparr>"

text \<open>
  What a handler sends: the HTTP status and the JSON body. An error body carries
  \<open>error\<close>, \<open>code\<close> and, for a locked account, \<open>lockUntil\<close>. The success bodies keep
  the identity and authorisation paths of the user and tenant views and the tokens.
\<close>

record userView =
  view_id :: string
  view_email :: string
  view_role :: role
  view_permissions :: permissions
  view_isAdmin :: bool

record tenantView =
  view_tenant_id :: string
  view_slug :: string
  view_name :: string
  view_plan :: plan
  view_noteLimit :: int

datatype body =
    ErrorBody string string "int option"
  | AuthBody string userView tenantView token token
  | RefreshBody token
  | TenantBody string tenantView

type_synonym response = "nat \<times> body"

definition deny :: "nat \<Rightarrow> string \<Rightarrow> string \<Rightarrow> response" where
  "deny st err cd = (st, ErrorBody err cd None)"

definition responseCode :: "response \<Rightarrow> string option" where
  "responseCode r = (case snd r of ErrorBody err cd l \<Rightarrow> Some cd | _ \<Rightarrow> None)"

definition viewOfUser :: "user \<Rightarrow> userView" where
  "viewOfUser u =
     \<lparr>view_id = user_id u, view_email = user.email u, view_role = user.role u,
      view_permissions = user.permissions u, view_isAdmin = (user.role u = Admin)\<rparr>"

definition viewOfTenant :: "tenant \<Rightarrow> tenantView" where
  "viewOfTenant t =
     \<lparr>view_tenant_id = tenant_id t, view_slug = slug t, view_name = name t,
      view_plan = plan t, view_noteLimit = noteLimit t\<rparr>"

definition tokenPayload :: "user \<Rightarrow> tenant \<Rightarrow> payload" where
  "tokenPayload u t =
     \<lparr>userId = Some (user_id u), email = Some (user.email u), tenantId = Some (tenant_id t),
      tenantSlug = Some (slug t), role = Some (user.role u), permissions = Some (user.permissions u)\<rparr>"

section \<open>Session and auth resolver\<close>

text \<open>The principal that \<open>authenticate\<close> attaches to the request as \<open>req.auth\<close>.\<close>

record principal =
  userId :: string
  tenantId :: string
  tenantSlug :: string
  role :: role
  permissions :: permissions
  isAdmin :: bool

definition principalOf :: "user \<Rightarrow> tenant \<Rightarrow> principal" where
  "principalOf u t =
     \<lparr>userId = user_id u, tenantId = tenant_id t, tenantSlug = slug t, role = user.role u,
      permissions = user.permissions u, isAdmin = (user.role u = Admin)\<rparr>"

text \<open>
  The store-backed middleware \<open>authenticate\<close>. \<open>populate('tenantId')\<close> replaces the
  reference by the tenant document with that \<open>_id\<close>, or by \<open>null\<close>. A \<open>CastError\<close> of
  \<open>findById\<close> is answered by the outer \<open>catch\<close>. The result is the response sent, or
  the principal with which \<open>next()\<close> is called.
\<close>

definition authServiceError :: response where
  "authServiceError = deny 500 ''Authentication service error.'' ''AUTH_SERVICE_ERROR''"

definition authenticate :: "env \<Rightarrow> store \<Rightarrow> token list option \<Rightarrow> response + principal" where
  "authenticate e st authHeader =
     (let token = extractTokenFromHeader authHeader in
      if \<not> truthy token then Inl (deny 401 ''Access denied. No token provided.'' ''NO_TOKEN'')
      else (case verifyToken e (the token) of
        None \<Rightarrow> Inl (deny 401 ''Invalid or expired token.'' ''INVALID_TOKEN'')
      | Some decoded \<Rightarrow>
          if tokenType decoded \<noteq> Some ''access''
          then Inl (deny 401 ''Invalid token type.'' ''INVALID_TOKEN_TYPE'')
          else (case findUserById st (payload.userId decoded) of
            CastError \<Rightarrow> Inl authServiceError
          | Result None \<Rightarrow> Inl (deny 401 ''User not found.'' ''USER_NOT_FOUND'')
          | Result (Some u) \<Rightarrow>
              if \<not> user.isActive u
              then Inl (deny 401 ''User account is deactivated.'' ''USER_INACTIVE'')
              else (case findTenantById st (user.tenantId u) of
                None \<Rightarrow> Inl (deny 401 ''Tenant account is inactive.'' ''TENANT_INACTIVE'')
              | Some t \<Rightarrow>
                  if \<not> tenant.isActive t
                  then Inl (deny 401 ''Tenant account is inactive.'' ''TENANT_INACTIVE'')
                  else if Some (tenant_id t) \<noteq> payload.tenantId decoded
                  then Inl (deny 401 ''Token tenant mismatch.'' ''TENANT_MISMATCH'')
                  else Inr (principalOf u t)))))"

text \<open>
  The hardcoded development accounts. The controller keys them by email and stores the
  bcrypt hash; the middleware keys them by \<open>_id\<close>. Each carries its tenant as a nested
  object with \<open>_id\<close>, \<open>slug\<close>, \<open>name\<close>, \<open>plan\<close>, \<open>noteLimit\<close>, \<open>isActive\<close> and a usage
  counter; the remaining paths of the records below are not in the literals and are never
  read from them. The controller reads its literal at a lowercased email address; the
  route lets only well-formed addresses through, so the literal is a finite map over its
  four own keys there. The middleware reads its literal at the \<open>userId\<close> of the token,
  which may be any string: besides the four own keys the lookup finds the members that an
  object literal inherits from \<open>Object.prototype\<close>, each a function or an object, so truthy
  and without an \<open>isActive\<close> property.
\<close>

definition mockPasswordHash :: string where
  "mockPasswordHash = ''$2a$10$92IXUNpkjO0rOQ5byMi.Ye4oKoEa3Ro9llC/.og/at2.uheWG/igi''"

definition mockTenant :: "string \<Rightarrow> string \<Rightarrow> string \<Rightarrow> plan \<Rightarrow> int \<Rightarrow> tenant" where
  "mockTenant i s n p l =
     \<lparr>tenant_id = i, slug = s, name = n, plan = p, noteLimit = l,
      subscription = \<lparr>status = Active, startDate = None, endDate = None\<rparr>,
      usage = \<lparr>currentNoteCount = 0, currentUserCount = 0, storageUsed = 0\<rparr>,
      isActive = True\<rparr>"

definition mockUser :: "string \<Rightarrow> string \<Rightarrow> string \<Rightarrow> role \<Rightarrow> user" where
  "mockUser i em tid r =
     \<lparr>user_id = i, email = em, password = mockPasswordHash, tenantId = tid, role = r,
      security = \<lparr>lastLogin = None, loginAttempts = 0, lockUntil = None\<rparr>,
      permissions = \<lparr>canCreateNotes = True, canEditNotes = True, canDeleteNotes = True,
        canShareNotes = True, canManageUsers = (r = Admin), canManageTenant = (r = Admin)\<rparr>,
      isActive = True\<rparr>"

definition mockTenantAcme :: tenant where
  "mockTenantAcme = mockTenant ''mock-tenant-acme'' ''acme'' ''Acme Corporation'' Free 3"

definition mockTenantGlobex :: tenant where
  "mockTenantGlobex = mockTenant ''mock-tenant-globex'' ''globex'' ''Globex Corporation'' Pro (- 1)"

definition mockAccounts :: "(user \<times> tenant) list" where
  "mockAccounts =
     [(mockUser ''mock-admin-acme'' ''admin@acme.test'' ''mock-tenant-acme'' Admin, mockTenantAcme),
      (mockUser ''mock-user-acme'' ''user@acme.test'' ''mock-tenant-acme'' Member, mockTenantAcme),
      (mockUser ''mock-admin-globex'' ''admin@globex.test'' ''mock-tenant-globex'' Admin, mockTenantGlobex),
      (mockUser ''mock-user-globex'' ''user@globex.test'' ''mock-tenant-globex'' Member, mockTenantGlobex)]"

definition mockAddresses :: "string list" where
  "mockAddresses = [''admin@acme.test'', ''user@acme.test'', ''admin@globex.test'', ''user@globex.test'']"

definition mockUsersByEmail :: "string \<Rightarrow> (user \<times> tenant) option" where
  "mockUsersByEmail k = find (\<lambda>(u, t). user.email u = k) mockAccounts"

definition objectPrototypeNames :: "string list" where
  "objectPrototypeNames =
     [''constructor'', ''__proto__'', ''hasOwnProperty'', ''isPrototypeOf'', ''propertyIsEnumerable'',
      ''toLocaleString'', ''toString'', ''valueOf'', ''__defineGetter__'', ''__defineSetter__'',
      ''__lookupGetter__'', ''__lookupSetter__'']"

datatype member = Own user tenant | Inherited | Undefined

definition mockUsersById :: "string option \<Rightarrow> member" where
  "mockUsersById i =
     (case i of
        None \<Rightarrow> Undefined
      | Some k \<Rightarrow>
          (case find (\<lambda>(u, t). user_id u = k) mockAccounts of
             Some (u, t) \<Rightarrow> Own u t
           | None \<Rightarrow> if k \<in> set objectPrototypeNames then Inherited else Undefined))"

text \<open>
  The middleware with development accounts. The token is taken from the header or else
  from the \<open>authToken\<close> cookie. A store user is loaded only when the store is connected;
  its tenant is fetched by \<open>Tenant.findOne({ slug: user.tenantId })\<close> and, when found,
  replaces \<open>user.tenantId\<close> by an object whose \<open>_id\<close> is the reference itself. When no
  tenant is found \<open>user.tenantId\<close> stays the reference, an \<open>ObjectId\<close>, whose
  \<open>isActive\<close> is \<open>undefined\<close>. \<open>loadUser\<close> is the part of the middleware that
  assigns \<open>user\<close>.
\<close>

datatype loaded = Threw | NoUser | PrototypeMember | Loaded user "tenant option"

definition loadUser :: "env \<Rightarrow> store \<Rightarrow> string option \<Rightarrow> loaded" where
  "loadUser e st i =
     (case mockUsersById i of
        Own u t \<Rightarrow> Loaded u (Some t)
      | Inherited \<Rightarrow> PrototypeMember
      | Undefined \<Rightarrow>
          if connected e then
            (case findUserById st i of
               CastError \<Rightarrow> Threw
             | Result None \<Rightarrow> NoUser
             | Result (Some u) \<Rightarrow>
                 (case findTenantBySlug st (user.tenantId u) of
                    None \<Rightarrow> Loaded u None
                  | Some t \<Rightarrow> Loaded u (Some (t\<lparr>tenant_id := user.tenantId u\<rparr>))))
          else NoUser)"

definition authenticateMock ::
  "env \<Rightarrow> store \<Rightarrow> token list option \<Rightarrow> token option \<Rightarrow> response + principal" where
  "authenticateMock e st authHeader cookieToken =
     (let headerToken = extractTokenFromHeader authHeader;
          token = (if \<not> truthy headerToken \<and> truthy cookieToken then cookieToken else headerToken)
      in
      if \<not> truthy token then Inl (deny 401 ''Access denied. No token provided.'' ''NO_TOKEN'')
      else (case verifyToken e (the token) of
        None \<Rightarrow> Inl (deny 401 ''Invalid or expired token.'' ''INVALID_TOKEN'')
      | Some decoded \<Rightarrow>
          if tokenType decoded \<noteq> Some ''access''
          then Inl (deny 401 ''Invalid token type.'' ''INVALID_TOKEN_TYPE'')
          else (case loadUser e st (payload.userId decoded) of
            Threw \<Rightarrow> Inl authServiceError
          | NoUser \<Rightarrow> Inl (deny 401 ''User not found.'' ''USER_NOT_FOUND'')
          | PrototypeMember \<Rightarrow> Inl (deny 401 ''User account is deactivated.'' ''USER_INACTIVE'')
          | Loaded u tenantObj \<Rightarrow>
              if \<not> user.isActive u
              then Inl (deny 401 ''User account is deactivated.'' ''USER_INACTIVE'')
              else (case tenantObj of
                None \<Rightarrow> Inl (deny 401 ''Tenant account is inactive.'' ''TENANT_INACTIVE'')
              | Some t \<Rightarrow>
                  if \<not> tenant.isActive t
                  then Inl (deny 401 ''Tenant account is inactive.'' ''TENANT_INACTIVE'')
                  else if Some (tenant_id t) \<noteq> payload.tenantId decoded
                  then Inl (deny 401 ''Token tenant mismatch.'' ''TENANT_MISMATCH'')
                  else Inr (principalOf u t)))))"

section \<open>Login and refresh\<close>

text \<open>The instance method \<open>comparePassword\<close>: an empty candidate or an empty stored hash
  is rejected without calling \<open>bcrypt.compare\<close>.\<close>

definition comparePassword :: "env \<Rightarrow> user \<Rightarrow> string \<Rightarrow> bool" where
  "comparePassword e u candidatePassword =
     (if candidatePassword = [] \<or> user.password u = [] then False
      else bcryptCompare e candidatePassword (user.password u))"

definition invalidCredentials :: response where
  "invalidCredentials = deny 401 ''Invalid email or password'' ''INVALID_CREDENTIALS''"

definition accountLocked :: "user \<Rightarrow> response" where
  "accountLocked u =
     (423, ErrorBody ''Account is temporarily locked due to too many failed login attempts''
             ''ACCOUNT_LOCKED'' (lockUntil (security u)))"

definition tenantInactive :: response where
  "tenantInactive = deny 403 ''Organization account is inactive'' ''TENANT_INACTIVE''"

definition loginSuccessful :: "env \<Rightarrow> user \<Rightarrow> tenant \<Rightarrow> response" where
  "loginSuccessful e u t =
     (200, AuthBody ''Login successful'' (viewOfUser u) (viewOfTenant t)
             (generateToken e (tokenPayload u t)) (generateRefreshToken e (tokenPayload u t)))"

text \<open>
  The store-backed \<open>login\<close> handler. The result is the response and the store after the
  call; the user's tenant is the document populated from the reference.
\<close>

definition login :: "env \<Rightarrow> store \<Rightarrow> string \<Rightarrow> string \<Rightarrow> response \<times> store" where
  "login e st em pw =
     (case find (\<lambda>u. user.email u = toLowerCase em \<and> user.isActive u) (users st) of
        None \<Rightarrow> (invalidCredentials, st)
      | Some u \<Rightarrow>
          if isLocked (now e) (security u) then (accountLocked u, st)
          else if \<not> comparePassword e u pw
          then (invalidCredentials,
                updateUser st (user_id u) (\<lambda>v. v\<lparr>security := incLoginAttempts (now e) (security v)\<rparr>))
          else (case findTenantById st (user.tenantId u) of
            None \<Rightarrow> (tenantInactive, st)
          | Some t \<Rightarrow>
              if \<not> tenant.isActive t then (tenantInactive, st)
              else (loginSuccessful e u t,
                    updateUser st (user_id u)
                      (\<lambda>v. v\<lparr>security := resetLoginAttempts (now e) (security v)\<rparr>))))"

text \<open>
  The \<open>login\<close> handler with development accounts. For a store user whose tenant is found,
  \<open>user\<close> is rebuilt as \<open>{ ...user.toObject(), tenantId: {...} }\<close>: the copy holds the
  virtuals (\<open>toObject: { virtuals: true }\<close>) but none of the schema's methods, so the call
  \<open>user.comparePassword(password)\<close> throws a \<open>TypeError\<close>, which the handler's
  \<open>catch\<close> answers with \<open>500\<close>. A store user whose tenant is not found stays a
  document; its \<open>tenantId\<close> stays the reference, whose \<open>isActive\<close> is \<open>undefined\<close>.
\<close>

definition loginServiceError :: response where
  "loginServiceError = deny 500 ''Login service error'' ''LOGIN_SERVICE_ERROR''"

definition loginMock :: "env \<Rightarrow> store \<Rightarrow> string \<Rightarrow> string \<Rightarrow> response \<times> store" where
  "loginMock e st em pw =
     (let lowerEmail = toLowerCase em in
      case mockUsersByEmail lowerEmail of
        Some (mu, mt) \<Rightarrow>
          if \<not> bcryptCompare e pw (user.password mu) then (invalidCredentials, st)
          else if \<not> tenant.isActive mt then (tenantInactive, st)
          else (loginSuccessful e mu mt, st)
      | None \<Rightarrow>
          if connected e then
            (case find (\<lambda>u. user.email u = lowerEmail \<and> user.isActive u) (users st) of
               None \<Rightarrow> (invalidCredentials, st)
             | Some u \<Rightarrow>
                 (case findTenantBySlug st (user.tenantId u) of
                    Some t \<Rightarrow>
                      if isLocked (now e) (security u) then (accountLocked u, st)
                      else (loginServiceError, st)
                  | None \<Rightarrow>
                      if isLocked (now e) (security u) then (accountLocked u, st)
                      else if \<not> comparePassword e u pw
                      then (invalidCredentials,
                            updateUser st (user_id u)
                              (\<lambda>v. v\<lparr>security := incLoginAttempts (now e) (security v)\<rparr>))
                      else (tenantInactive,
                            updateUser st (user_id u)
                              (\<lambda>v. v\<lparr>security := resetLoginAttempts (now e) (security v)\<rparr>))))
          else (invalidCredentials, st))"

text \<open>The store after a sequence of login attempts, each an email and a password.\<close>

definition loginMockAll :: "env \<Rightarrow> store \<Rightarrow> (string \<times> string) list \<Rightarrow> store" where
  "loginMockAll e st attempts = fold (\<lambda>(em, pw) s. snd (loginMock e s em pw)) attempts st"

text \<open>
  The two \<open>refreshToken\<close> handlers. Neither controller module imports what it calls to
  verify the token: the first calls \<open>verifyToken\<close> with only \<open>generateToken\<close> and
  \<open>generateRefreshToken\<close> imported from \<open>utils/jwt.js\<close>, the second calls
  \<open>jwt.verify(refreshToken, process.env.JWT_REFRESH_SECRET)\<close> with no \<open>jwt\<close> in scope.
  The verification call is therefore a parameter: \<open>None\<close> is a call that throws. In the
  modules as they stand the call raises a \<open>ReferenceError\<close>, which is \<open>unbound\<close>.
\<close>

definition unbound :: "token \<Rightarrow> claims option" where
  "unbound t = None"

definition refreshToken :: "(token \<Rightarrow> claims option) \<Rightarrow> env \<Rightarrow> store \<Rightarrow> token option \<Rightarrow> response" where
  "refreshToken verify e st token =
     (if \<not> truthy token then deny 401 ''Refresh token required'' ''REFRESH_TOKEN_REQUIRED''
      else (case verify (the token) of
        None \<Rightarrow> deny 401 ''Invalid refresh token'' ''INVALID_REFRESH_TOKEN''
      | Some decoded \<Rightarrow>
          if tokenType decoded \<noteq> Some ''refresh''
          then deny 401 ''Invalid token type'' ''INVALID_TOKEN_TYPE''
          else (case findUserById st (payload.userId decoded) of
            CastError \<Rightarrow> deny 500 ''Token refresh service error'' ''TOKEN_REFRESH_SERVICE_ERROR''
          | Result None \<Rightarrow> deny 401 ''Invalid user or tenant'' ''INVALID_USER_TENANT''
          | Result (Some u) \<Rightarrow>
              (case findTenantById st (user.tenantId u) of
                 None \<Rightarrow> deny 401 ''Invalid user or tenant'' ''INVALID_USER_TENANT''
               | Some t \<Rightarrow>
                   if \<not> user.isActive u \<or> \<not> tenant.isActive t
                   then deny 401 ''Invalid user or tenant'' ''INVALID_USER_TENANT''
                   else (200, RefreshBody (generateToken e (tokenPayload u t)))))))"

text \<open>In the second handler every exception, also a \<open>CastError\<close> of \<open>findById\<close> and
  the \<open>TypeError\<close> of reading \<open>user.tenantId._id\<close> when the populated tenant is
  \<open>null\<close>, is answered by the \<open>catch\<close> with \<open>INVALID_REFRESH_TOKEN\<close>; in the first
  a \<open>CastError\<close> reaches the outer \<open>catch\<close>, which answers \<open>500\<close>.\<close>

definition refreshTokenMock :: "(token \<Rightarrow> claims option) \<Rightarrow> env \<Rightarrow> store \<Rightarrow> token option \<Rightarrow> response" where
  "refreshTokenMock verify e st token =
     (if \<not> truthy token then deny 401 ''Refresh token is required'' ''REFRESH_TOKEN_REQUIRED''
      else (case verify (the token) of
        None \<Rightarrow> deny 401 ''Invalid refresh token'' ''INVALID_REFRESH_TOKEN''
      | Some decoded \<Rightarrow>
          (case findUserById st (payload.userId decoded) of
             CastError \<Rightarrow> deny 401 ''Invalid refresh token'' ''INVALID_REFRESH_TOKEN''
           | Result None \<Rightarrow> deny 401 ''Invalid refresh token'' ''INVALID_REFRESH_TOKEN''
           | Result (Some u) \<Rightarrow>
               if \<not> user.isActive u then deny 401 ''Invalid refresh token'' ''INVALID_REFRESH_TOKEN''
               else (case findTenantById st (user.tenantId u) of
                 None \<Rightarrow> deny 401 ''Invalid refresh token'' ''INVALID_REFRESH_TOKEN''
               | Some t \<Rightarrow> (200, RefreshBody (generateToken e (tokenPayload u t)))))))"

section \<open>Schema validation\<close>

text \<open>
  \<open>save()\<close> validates a document against its schema before the schema's own
  \<open>pre('save')\<close> hook runs, and rejects (throws) when a validator fails; the hook then
  never runs and nothing is stored. The \<open>match\<close> validators are regular expressions
  anchored at both ends; they are run by a matcher on derivatives.
\<close>

datatype rexp =
    Zero
  | Eps
  | Sym "char \<Rightarrow> bool"
  | Alt rexp rexp
  | Seq rexp rexp
  | Star rexp

fun nullable :: "rexp \<Rightarrow> bool" where
  "nullable Zero = False"
| "nullable Eps = True"
| "nullable (Sym p) = False"
| "nullable (Alt r s) = (nullable r \<or> nullable s)"
| "nullable (Seq r s) = (nullable r \<and> nullable s)"
| "nullable (Star r) = True"

fun deriv :: "char \<Rightarrow> rexp \<Rightarrow> rexp" where
  "deriv c Zero = Zero"
| "deriv c Eps = Zero"
| "deriv c (Sym p) = (if p c then Eps else Zero)"
| "deriv c (Alt r s) = Alt (deriv c r) (deriv c s)"
| "deriv c (Seq r s) =
     (if nullable r then Alt (Seq (deriv c r) s) (deriv c s) else Seq (deriv c r) s)"
| "deriv c (Star r) = Seq (deriv c r) (Star r)"

definition matches :: "rexp \<Rightarrow> string \<Rightarrow> bool" where
  "matches r s = nullable (fold deriv s r)"

definition Plus :: "rexp \<Rightarrow> rexp" where
  "Plus r = Seq r (Star r)"

definition Opt :: "rexp \<Rightarrow> rexp" where
  "Opt r = Alt r Eps"

text \<open>The user schema's \<^verbatim>\<open>/^\w+([.-]?\w+)*@\w+([.-]?\w+)*(\.\w{2,3})+$/\<close> and the
  tenant schema's \<^verbatim>\<open>/^[a-z0-9-]+$/\<close>.\<close>

definition dottedWords :: rexp where
  "dottedWords =
     Seq (Plus (Sym isWord))
       (Star (Seq (Opt (Sym (\<lambda>c. c = CHR ''.'' \<or> c = CHR ''-''))) (Plus (Sym isWord))))"

definition emailPattern :: rexp where
  "emailPattern =
     Seq dottedWords
       (Seq (Sym (\<lambda>c. c = CHR ''@''))
         (Seq dottedWords
           (Plus (Seq (Sym (\<lambda>c. c = CHR ''.''))
                   (Seq (Sym isWord) (Seq (Sym isWord) (Opt (Sym isWord))))))))"

definition slugPattern :: rexp where
  "slugPattern = Plus (Sym (\<lambda>c. isLowerAlnum c \<or> c = CHR ''-''))"

text \<open>
  The validators of the paths this model carries. The string setters (\<open>lowercase\<close>,
  \<open>trim\<close>) have already run when the document was built; \<open>required\<close> rejects the
  empty string. The validator of \<open>noteLimit\<close> reads the plan the document holds when it
  is saved.
\<close>

definition noteLimitValid :: "tenant \<Rightarrow> bool" where
  "noteLimitValid t =
     (if plan t = Free then noteLimit t > 0 \<and> noteLimit t \<le> 10
      else noteLimit t = - 1 \<or> noteLimit t > 0)"

definition usageValid :: "tenant \<Rightarrow> bool" where
  "usageValid t =
     (0 \<le> currentNoteCount (usage t) \<and> 0 \<le> currentUserCount (usage t) \<and> 0 \<le> storageUsed (usage t))"

definition tenantValid :: "tenant \<Rightarrow> bool" where
  "tenantValid t =
     (slug t \<noteq> [] \<and> matches slugPattern (slug t) \<and> 2 \<le> length (slug t) \<and> length (slug t) \<le> 50
      \<and> name t \<noteq> [] \<and> 2 \<le> length (name t) \<and> length (name t) \<le> 100
      \<and> noteLimitValid t \<and> usageValid t)"

definition userValid :: "user \<Rightarrow> bool" where
  "userValid u =
     (user.email u \<noteq> [] \<and> matches emailPattern (user.email u) \<and> length (user.email u) \<le> 255
      \<and> user.password u \<noteq> [] \<and> 6 \<le> length (user.password u)
      \<and> loginAttempts (security u) \<le> 5)"

text \<open>
  \<open>tenant.save()\<close>: the validators, then the hook; \<open>None\<close> is a rejected save. The
  flag is what \<open>isModified('plan')\<close> answers in the hook. The handlers save documents
  they have just built or just loaded by a query, and of such a document every path is
  validated. (\<open>register\<close> saves its tenant a second time after counting the user; the
  paths not validated again then are those left as the first save accepted them.)
\<close>

definition tenantSave :: "bool \<Rightarrow> tenant \<Rightarrow> tenant option" where
  "tenantSave planModified t = (if tenantValid t then Some (tenantPreSave planModified t) else None)"

section \<open>Registration and upgrade\<close>

text \<open>
  \<open>new Tenant({...})\<close> and \<open>new User({...})\<close> as \<open>register\<close> builds them: the given
  paths go through the schema's setters, the others take their defaults.
\<close>

definition newTenant :: "env \<Rightarrow> string \<Rightarrow> string \<Rightarrow> tenant" where
  "newTenant e slugArg nameArg =
     \<lparr>tenant_id = newTenantId e, slug = trim (toLowerCase slugArg), name = trim nameArg,
      plan = Free, noteLimit = 3,
      subscription = \<lparr>status = Active, startDate = Some (now e), endDate = None\<rparr>,
      usage = \<lparr>currentNoteCount = 0, currentUserCount = 0, storageUsed = 0\<rparr>,
      isActive = True\<rparr>"

definition newAdmin :: "env \<Rightarrow> string \<Rightarrow> string \<Rightarrow> tenant \<Rightarrow> user" where
  "newAdmin e em pw t =
     \<lparr>user_id = newUserId e, email = trim (toLowerCase (toLowerCase em)), password = pw,
      tenantId = tenant_id t, role = Admin,
      security = \<lparr>lastLogin = None, loginAttempts = 0, lockUntil = None\<rparr>,
      permissions = \<lparr>canCreateNotes = True, canEditNotes = True, canDeleteNotes = True,
        canShareNotes = True, canManageUsers = True, canManageTenant = True\<rparr>,
      isActive = True\<rparr>"

text \<open>The user schema's \<open>pre('save')\<close> hook: a modified password is hashed, and a
  modified role \<open>admin\<close> sets the two management permissions.\<close>

definition userPreSave :: "env \<Rightarrow> bool \<Rightarrow> bool \<Rightarrow> user \<Rightarrow> user" where
  "userPreSave e passwordModified roleModified u =
     (let u1 = (if passwordModified then u\<lparr>password := bcryptHash e (user.password u)\<rparr> else u)
      in if roleModified \<and> user.role u1 = Admin
         then u1\<lparr>user.permissions := (user.permissions u1)\<lparr>canManageUsers := True, canManageTenant := True\<rparr>\<rparr>
         else u1)"

text \<open>\<open>user.save()\<close>: the validators, then the hook.\<close>

definition userSave :: "env \<Rightarrow> bool \<Rightarrow> bool \<Rightarrow> user \<Rightarrow> user option" where
  "userSave e passwordModified roleModified u =
     (if userValid u then Some (userPreSave e passwordModified roleModified u) else None)"

text \<open>The instance method \<open>incrementUsage('users', amount)\<close>, before its \<open>save()\<close>.\<close>

definition incrementUsers :: "int \<Rightarrow> tenant \<Rightarrow> tenant" where
  "incrementUsers amount t =
     t\<lparr>usage := (usage t)\<lparr>currentUserCount := currentUserCount (usage t) + amount\<rparr>\<rparr>"

definition registrationServiceError :: response where
  "registrationServiceError = deny 500 ''Registration service error'' ''REGISTRATION_SERVICE_ERROR''"

text \<open>
  The \<open>register\<close> handler (the same in both controllers). A rejected \<open>save()\<close> is
  answered by the \<open>catch\<close>; what was saved before stays in the store.
\<close>

definition register :: "env \<Rightarrow> store \<Rightarrow> string \<Rightarrow> string \<Rightarrow> string \<Rightarrow> response \<times> store" where
  "register e st em pw tenantName =
     (if find (\<lambda>u. user.email u = toLowerCase em) (users st) \<noteq> None
      then (deny 409 ''User with this email already exists'' ''USER_EXISTS'', st)
      else
        (let derivedSlug = deriveSlug tenantName in
         if findTenantBySlug st derivedSlug \<noteq> None
         then (deny 409 ''Organization name already taken'' ''TENANT_EXISTS'', st)
         else
           (case tenantSave True (newTenant e derivedSlug tenantName) of
              None \<Rightarrow> (registrationServiceError, st)
            | Some t1 \<Rightarrow>
                (let st1 = st\<lparr>tenants := tenants st @ [t1]\<rparr> in
                 (case userSave e True True (newAdmin e em pw t1) of
                    None \<Rightarrow> (registrationServiceError, st1)
                  | Some u1 \<Rightarrow>
                      (let st2 = st1\<lparr>users := users st1 @ [u1]\<rparr> in
                       (case tenantSave False (incrementUsers 1 t1) of
                          None \<Rightarrow> (registrationServiceError, st2)
                        | Some t3 \<Rightarrow>
                            ((201, AuthBody ''Registration successful'' (viewOfUser u1) (viewOfTenant t3)
                                     (generateToken e (tokenPayload u1 t3))
                                     (generateRefreshToken e (tokenPayload u1 t3))),
                             updateTenant st2 (tenant_id t1) (\<lambda>_. t3)))))))))"

text \<open>
  The \<open>upgradeTenant\<close> handler: \<open>auth\<close> is \<open>req.auth\<close>, \<open>slugParam\<close> is
  \<open>req.params.slug\<close>. The tenant is looked up by slug and \<open>_id\<close> together; a
  \<open>tenantId\<close> that cannot be cast to an \<open>ObjectId\<close> makes the query throw, and so does
  a rejected \<open>save()\<close>; both are answered by the \<open>catch\<close>.
\<close>

definition upgradeServiceError :: response where
  "upgradeServiceError = deny 500 ''Tenant upgrade service error'' ''TENANT_UPGRADE_SERVICE_ERROR''"

definition yearMs :: int where
  "yearMs = 365 * 24 * 60 * 60 * 1000"

definition upgradeTenant :: "env \<Rightarrow> store \<Rightarrow> principal \<Rightarrow> string \<Rightarrow> response \<times> store" where
  "upgradeTenant e st auth slugParam =
     (if \<not> isAdmin auth
      then (deny 403 ''Only administrators can upgrade subscriptions'' ''ADMIN_REQUIRED'', st)
      else
        (case castObjectId (principal.tenantId auth) of
           None \<Rightarrow> (upgradeServiceError, st)
         | Some oid \<Rightarrow>
             (case find (\<lambda>t. slug t = slugParam \<and> tenant_id t = oid) (tenants st) of
                None \<Rightarrow> (deny 404 ''Tenant not found or access denied'' ''TENANT_NOT_FOUND'', st)
              | Some t \<Rightarrow>
                  if plan t = Pro then (deny 400 ''Tenant is already on Pro plan'' ''ALREADY_PRO'', st)
                  else
                    (case tenantSave True
                            (t\<lparr>plan := Pro, noteLimit := - 1,
                               subscription := \<lparr>status = Active, startDate = Some (now e),
                                                endDate = Some (now e + yearMs)\<rparr>\<rparr>) of
                       None \<Rightarrow> (upgradeServiceError, st)
                     | Some t2 \<Rightarrow>
                         ((200, TenantBody ''Successfully upgraded to Pro plan'' (viewOfTenant t2)),
                          updateTenant st (tenant_id t) (\<lambda>_. t2))))))"

section \<open>The resolver's checks as the specification orders them\<close>

text \<open>
  What a request resolves to: the bearer credential it presents, the claims the Token
  Service returns for it, the user whose \<open>_id\<close> those claims name and the tenant whose
  \<open>_id\<close> is that user's tenant reference. Each step is \<open>None\<close> when it or an earlier step
  yields nothing. The seven checks of the specification are listed in its order, each with
  the answer it gives when it is the first to fail.
\<close>

record resolution =
  credential :: "token option"
  decoded :: "claims option"
  foundUser :: "user option"
  foundTenant :: "tenant option"

definition authChecks :: "((resolution \<Rightarrow> bool) \<times> string \<times> string) list" where
  "authChecks =
     [(\<lambda>r. credential r = None,
       ''Access denied. No token provided.'', ''NO_TOKEN''),
      (\<lambda>r. decoded r = None,
       ''Invalid or expired token.'', ''INVALID_TOKEN''),
      (\<lambda>r. case decoded r of None \<Rightarrow> True | Some d \<Rightarrow> tokenType d \<noteq> Some ''access'',
       ''Invalid token type.'', ''INVALID_TOKEN_TYPE''),
      (\<lambda>r. foundUser r = None,
       ''User not found.'', ''USER_NOT_FOUND''),
      (\<lambda>r. case foundUser r of None \<Rightarrow> True | Some u \<Rightarrow> \<not> user.isActive u,
       ''User account is deactivated.'', ''USER_INACTIVE''),
      (\<lambda>r. case foundTenant r of None \<Rightarrow> True | Some t \<Rightarrow> \<not> tenant.isActive t,
       ''Tenant account is inactive.'', ''TENANT_INACTIVE''),
      (\<lambda>r. case (decoded r, foundUser r) of
              (Some d, Some u) \<Rightarrow> payload.tenantId d \<noteq> Some (user.tenantId u)
            | _ \<Rightarrow> True,
       ''Token tenant mismatch.'', ''TENANT_MISMATCH'')]"

definition firstFailing :: "resolution \<Rightarrow> (string \<times> string) option" where
  "firstFailing r = map_option snd (find (\<lambda>(failing, answer). failing r) authChecks)"

definition resolverOutcome :: "resolution \<Rightarrow> response + principal" where
  "resolverOutcome r =
     (case firstFailing r of
        Some (err, cd) \<Rightarrow> Inl (deny 401 err cd)
      | None \<Rightarrow>
          (case (foundUser r, foundTenant r) of
             (Some u, Some t) \<Rightarrow>
               Inr \<lparr>userId = user_id u, tenantId = user.tenantId u, tenantSlug = slug t,
                    role = user.role u, permissions = user.permissions u,
                    isAdmin = (user.role u = Admin)\<rparr>
           | _ \<Rightarrow> Inl (deny 500 ''Authentication service error.'' ''AUTH_SERVICE_ERROR'')))"

definition userWithId :: "store \<Rightarrow> string option \<Rightarrow> user option" where
  "userWithId st i =
     (case i of None \<Rightarrow> None | Some k \<Rightarrow> find (\<lambda>u. Some (user_id u) = castObjectId k) (users st))"

definition resolve :: "env \<Rightarrow> store \<Rightarrow> token list option \<Rightarrow> resolution" where
  "resolve e st authHeader =
     (let cred = (if truthy (extractTokenFromHeader authHeader)
                  then extractTokenFromHeader authHeader else None);
          dec = Option.bind cred (verifyToken e);
          usr = Option.bind dec (\<lambda>d. userWithId st (payload.userId d));
          ten = Option.bind usr (\<lambda>u. findTenantById st (user.tenantId u))
      in \<lparr>credential = cred, decoded = dec, foundUser = usr, foundTenant = ten\<rparr>)"

text \<open>The requests the checks do not speak of: verified claims of type \<open>access\<close> whose
  \<open>userId\<close> is a string that is no \<open>ObjectId\<close>.\<close>

definition malformedUserId :: "resolution \<Rightarrow> bool" where
  "malformedUserId r =
     (case decoded r of
        None \<Rightarrow> False
      | Some d \<Rightarrow>
          tokenType d = Some ''access''
          \<and> (case payload.userId d of None \<Rightarrow> False | Some k \<Rightarrow> castObjectId k = None))"

text \<open>
  For the middleware with development accounts the credential is the bearer token or,
  when there is none, the \<open>authToken\<close> cookie. A \<open>userId\<close> that names one of the four
  development accounts resolves to that account and its hardcoded tenant; any other user
  is sought in the store, as long as the store is connected, and the tenant is the stored
  tenant that user refers to.
\<close>

definition devAccount :: "string option \<Rightarrow> (user \<times> tenant) option" where
  "devAccount i = (case i of None \<Rightarrow> None | Some k \<Rightarrow> find (\<lambda>(u, t). user_id u = k) mockAccounts)"

definition resolveDev :: "env \<Rightarrow> store \<Rightarrow> token list option \<Rightarrow> token option \<Rightarrow> resolution" where
  "resolveDev e st authHeader cookieToken =
     (let cred = (if truthy (extractTokenFromHeader authHeader) then extractTokenFromHeader authHeader
                  else if truthy cookieToken then cookieToken else None);
          dec = Option.bind cred (verifyToken e);
          acc = Option.bind dec (\<lambda>d. devAccount (payload.userId d));
          usr = (case acc of
                   Some (u, t) \<Rightarrow> Some u
                 | None \<Rightarrow>
                     if connected e then Option.bind dec (\<lambda>d. userWithId st (payload.userId d))
                     else None);
          ten = (case acc of
                   Some (u, t) \<Rightarrow> Some t
                 | None \<Rightarrow> Option.bind usr (\<lambda>u. findTenantById st (user.tenantId u)))
      in \<lparr>credential = cred, decoded = dec, foundUser = usr, foundTenant = ten\<rparr>)"

text \<open>The requests about which nothing is said for that middleware: verified claims of
  type \<open>access\<close> that name no development account and either carry a \<open>userId\<close> that is
  no \<open>ObjectId\<close> or name an active stored user.\<close>

definition beyondDevChecks :: "resolution \<Rightarrow> bool" where
  "beyondDevChecks r =
     (case decoded r of
        None \<Rightarrow> False
      | Some d \<Rightarrow>
          tokenType d = Some ''access'' \<and> devAccount (payload.userId d) = None
          \<and> ((case payload.userId d of None \<Rightarrow> False | Some k \<Rightarrow> castObjectId k = None)
               \<or> (case foundUser r of None \<Rightarrow> False | Some u \<Rightarrow> user.isActive u)))"

section \<open>Example data\<close>

text \<open>A concrete environment, in which \<open>bcrypt\<close> is replaced by a one-character
  prefix, and concrete documents, used to run the model.\<close>

definition env0 :: env where
  "env0 =
     \<lparr>JWT_SECRET = ''fallback-secret-key-for-development-only'', JWT_EXPIRES_IN = 604800,
      JWT_REFRESH_EXPIRES_IN = 2592000, now = 1000000, randomUUID = ''uuid-1'',
      bcryptCompare = (\<lambda>p h. h = CHR ''#'' # p), bcryptHash = (\<lambda>p. CHR ''#'' # p),
      connected = True, newTenantId = ''64f1a2b3c4d5e6f708091b09'',
      newUserId = ''64f1a2b3c4d5e6f708091a09''\<rparr>"

definition emptyStore :: store where
  "emptyStore = \<lparr>users = [], tenants = []\<rparr>"

definition freeTenant :: "int \<Rightarrow> int \<Rightarrow> tenant" where
  "freeTenant limit used =
     (mockTenant ''64f1a2b3c4d5e6f708091b01'' ''acme'' ''Acme Corporation'' Free limit)
       \<lparr>usage := \<lparr>currentNoteCount = used, currentUserCount = 1, storageUsed = 0\<rparr>\<rparr>"

definition proTenant :: "int \<Rightarrow> tenant" where
  "proTenant used =
     (mockTenant ''64f1a2b3c4d5e6f708091b02'' ''globex'' ''Globex Corporation'' Pro (- 1))
       \<lparr>usage := \<lparr>currentNoteCount = used, currentUserCount = 2, storageUsed = 0\<rparr>\<rparr>"

definition alice :: user where
  "alice =
     \<lparr>user_id = ''64f1a2b3c4d5e6f708091a01'', email = ''alice@acme.com'', password = ''#Secret1'',
      tenantId = ''64f1a2b3c4d5e6f708091b01'', role = Member,
      security = \<lparr>lastLogin = None, loginAttempts = 3, lockUntil = None\<rparr>,
      permissions = \<lparr>canCreateNotes = True, canEditNotes = True, canDeleteNotes = True,
        canShareNotes = True, canManageUsers = False, canManageTenant = False\<rparr>,
      isActive = True\<rparr>"

definition acmeStore :: store where
  "acmeStore = \<lparr>users = [alice], tenants = [freeTenant 3 0]\<rparr>"

definition acmeAdmin :: principal where
  "acmeAdmin =
     \<lparr>userId = ''64f1a2b3c4d5e6f708091a02'', tenantId = ''64f1a2b3c4d5e6f708091b01'',
      tenantSlug = ''acme'', role = Admin,
      permissions = \<lparr>canCreateNotes = True, canEditNotes = True, canDeleteNotes = True,
        canShareNotes = True, canManageUsers = True, canManageTenant = True\<rparr>,
      isAdmin = True\<rparr>"

definition lockedOut :: security where
  "lockedOut = \<lparr>lastLogin = None, loginAttempts = 5, lockUntil = Some 7200000\<rparr>"

definition alicePayload :: payload where
  "alicePayload = tokenPayload alice (freeTenant 3 0)"

definition allPermissions :: permissions where
  "allPermissions =
     \<lparr>canCreateNotes = True, canEditNotes = True, canDeleteNotes = True,
      canShareNotes = True, canManageUsers = True, canManageTenant = True\<rparr>"

definition strictEnv :: env where
  "strictEnv = env0\<lparr>bcryptCompare := (\<lambda>p h. p = ''password'' \<and> h = mockPasswordHash)\<rparr>"

definition orphanStore :: store where
  "orphanStore = \<lparr>users = [alice], tenants = []\<rparr>"

definition mockAdminPayload :: payload where
  "mockAdminPayload =
     tokenPayload (mockUser ''mock-admin-acme'' ''admin@acme.test'' ''mock-tenant-acme'' Admin)
       mockTenantAcme"

section \<open>Tenant quota gate: theorems\<close>

text \<open>
  Claim C2. For every tenant, \<open>canCreateNotes\<close> is true if and only if the tenant is
  active, its subscription status is \<open>active\<close>, and its note limit is \<open>-1\<close> or its current
  note count is below the limit. In particular an active free tenant with limit 3 is denied
  at count 3 and allowed at count 2, and an active pro tenant with limit \<open>-1\<close> is allowed
  at every count.
\<close>

theorem canCreateNotes_gate:
  "(tenantCanCreateNotes t \<longleftrightarrow>
      tenant.isActive t \<and> status (subscription t) = Active
      \<and> (noteLimit t = - 1 \<or> currentNoteCount (usage t) < noteLimit t))
   \<and> (tenant.isActive t \<and> status (subscription t) = Active \<and> plan t = Free \<and> noteLimit t = 3
        \<and> currentNoteCount (usage t) = 3 \<longrightarrow> \<not> tenantCanCreateNotes t)
   \<and> (tenant.isActive t \<and> status (subscription t) = Active \<and> plan t = Free \<and> noteLimit t = 3
        \<and> currentNoteCount (usage t) = 2 \<longrightarrow> tenantCanCreateNotes t)
   \<and> (tenant.isActive t \<and> status (subscription t) = Active \<and> plan t = Pro \<and> noteLimit t = - 1
        \<longrightarrow> tenantCanCreateNotes t)"
  by (auto simp: tenantCanCreateNotes_def hasUnlimitedNotes_def)

theorem canCreateNotes_gate_witness:
  "\<not> tenantCanCreateNotes (freeTenant 3 3) \<and> tenantCanCreateNotes (freeTenant 3 2)
   \<and> tenantCanCreateNotes (proTenant 1000)"
  using canCreateNotes_gate [of "freeTenant 3 3"] canCreateNotes_gate [of "freeTenant 3 2"]
    canCreateNotes_gate [of "proTenant 1000"]
  by (simp add: freeTenant_def proTenant_def mockTenant_def)

section \<open>Plan and note limit: theorems\<close>

lemma find_update_tenant:
  "find (\<lambda>t. tenant_id t = k) ts = Some t \<Longrightarrow> tenant_id t' = k \<Longrightarrow>
   find (\<lambda>t. tenant_id t = k) (map (\<lambda>t. if tenant_id t = k then t' else t) ts) = Some t'"
  by (induction ts) (auto split: if_splits)

text \<open>The hook by itself would set a limit of \<open>-1\<close> or above 10 on the free plan to 3.
  Such a document does not get as far as the hook: its save is rejected by the validator
  of \<open>noteLimit\<close>.\<close>

lemma tenantPreSave_free_clamp:
  "plan t = Free \<Longrightarrow> noteLimit t = - 1 \<or> 10 < noteLimit t \<Longrightarrow>
   tenantPreSave True t = t\<lparr>noteLimit := 3\<rparr>"
  by (auto simp: tenantPreSave_def)

lemma tenantSave_free_rejected:
  "plan t = Free \<Longrightarrow> noteLimit t = - 1 \<or> 10 < noteLimit t \<Longrightarrow> tenantSave planModified t = None"
  by (auto simp: tenantSave_def tenantValid_def noteLimitValid_def)

text \<open>
  Claim C8, as the code has it. A save with the plan modified is rejected when a validator
  fails, stores the tenant with limit \<open>-1\<close> when it is on the pro plan with a held limit
  below 10, and stores it as it is otherwise. So a stored result keeps the plan and has a
  limit that is valid for it; a tenant now on the free plan is stored only with a held
  limit from 1 to 10, which it keeps; a tenant now on the pro plan with a held limit of
  \<open>-1\<close> or from 1 to 9 ends with \<open>-1\<close>, and one with a held limit above 10 keeps it. A
  successful \<open>upgradeTenant\<close> stores the tenant with plan pro and limit \<open>-1\<close>.
\<close>

theorem planChange_restores_consistency:
  "tenantSave True t =
     (if \<not> tenantValid t then None
      else if plan t = Pro \<and> noteLimit t < 10 then Some (t\<lparr>noteLimit := - 1\<rparr>)
      else Some t)
   \<and> (tenantSave True t = Some t' \<longrightarrow>
        plan t' = plan t \<and> noteLimitValid t'
        \<and> (plan t = Free \<longrightarrow> 1 \<le> noteLimit t \<and> noteLimit t \<le> 10 \<and> noteLimit t' = noteLimit t)
        \<and> (plan t = Pro \<and> noteLimit t < 10 \<longrightarrow>
              (noteLimit t = - 1 \<or> 1 \<le> noteLimit t) \<and> noteLimit t' = - 1)
        \<and> (plan t = Pro \<and> 10 < noteLimit t \<longrightarrow> noteLimit t' = noteLimit t))
   \<and> (upgradeTenant e st auth s = ((200, b), st') \<longrightarrow>
        (\<exists>t' oid. castObjectId (principal.tenantId auth) = Some oid
              \<and> findTenantById st' oid = Some t' \<and> slug t' = s
              \<and> plan t' = Pro \<and> noteLimit t' = - 1))"
proof -
  have save: "tenantSave True t =
     (if \<not> tenantValid t then None
      else if plan t = Pro \<and> noteLimit t < 10 then Some (t\<lparr>noteLimit := - 1\<rparr>)
      else Some t)"
  proof (cases "tenantValid t")
    case False
    then show ?thesis by (simp add: tenantSave_def)
  next
    case True
    then have "noteLimitValid t" by (simp add: tenantValid_def)
    then show ?thesis
      using True by (cases "plan t") (auto simp: tenantSave_def tenantPreSave_def noteLimitValid_def)
  qed
  have stored: "plan t' = plan t \<and> noteLimitValid t'
        \<and> (plan t = Free \<longrightarrow> 1 \<le> noteLimit t \<and> noteLimit t \<le> 10 \<and> noteLimit t' = noteLimit t)
        \<and> (plan t = Pro \<and> noteLimit t < 10 \<longrightarrow>
              (noteLimit t = - 1 \<or> 1 \<le> noteLimit t) \<and> noteLimit t' = - 1)
        \<and> (plan t = Pro \<and> 10 < noteLimit t \<longrightarrow> noteLimit t' = noteLimit t)"
    if "tenantSave True t = Some t'"
  proof -
    from that have v: "tenantValid t"
      by (simp add: tenantSave_def split: if_splits)
    then have n: "noteLimitValid t" by (simp add: tenantValid_def)
    from that v have t': "t' = (if plan t = Pro \<and> noteLimit t < 10 then t\<lparr>noteLimit := - 1\<rparr> else t)"
      unfolding save by (auto split: if_splits)
    show ?thesis
      using n unfolding t' by (cases "plan t") (auto simp: noteLimitValid_def)
  qed
  have up: "\<exists>t' oid. castObjectId (principal.tenantId auth) = Some oid
              \<and> findTenantById st' oid = Some t' \<and> slug t' = s
              \<and> plan t' = Pro \<and> noteLimit t' = - 1"
    if ok: "upgradeTenant e st auth s = ((200, b), st')"
  proof -
    obtain oid where c: "castObjectId (principal.tenantId auth) = Some oid"
      using ok by (auto simp: upgradeTenant_def upgradeServiceError_def deny_def split: if_splits option.splits)
    obtain t0 where f: "find (\<lambda>t. slug t = s \<and> tenant_id t = oid) (tenants st) = Some t0"
      using ok c by (auto simp: upgradeTenant_def deny_def split: if_splits option.splits)
    let ?t1 = "t0\<lparr>plan := Pro, noteLimit := - 1,
                 subscription := \<lparr>status = Active, startDate = Some (now e), endDate = Some (now e + yearMs)\<rparr>\<rparr>"
    obtain t2 where s2: "tenantSave True ?t1 = Some t2"
      using ok c f by (auto simp: upgradeTenant_def upgradeServiceError_def deny_def split: if_splits option.splits)
    then have t2: "t2 = ?t1"
      by (auto simp: tenantSave_def tenantPreSave_def split: if_splits)
    from f have t0: "slug t0 = s" "tenant_id t0 = oid" "t0 \<in> set (tenants st)"
      by (auto simp: find_Some_iff)
    have st': "st' = updateTenant st (tenant_id t0) (\<lambda>_. t2)"
      using ok c f s2 by (auto simp: upgradeTenant_def deny_def split: if_splits)
    from t0(3) obtain t1 where f1: "find (\<lambda>t. tenant_id t = tenant_id t0) (tenants st) = Some t1"
      by (cases "find (\<lambda>t. tenant_id t = tenant_id t0) (tenants st)") (auto simp: find_None_iff)
    have "findTenantById st' oid = Some t2"
      unfolding st' findTenantById_def updateTenant_def using find_update_tenant [OF f1, of t2] t0(2)
      by (simp add: t2)
    moreover have "slug t2 = s" "plan t2 = Pro" "noteLimit t2 = - 1"
      using t0(1) by (simp_all add: t2)
    ultimately show ?thesis using c by blast
  qed
  from save stored up show ?thesis by blast
qed

theorem planChange_restores_consistency_witness:
  "tenantSave True ((proTenant 0)\<lparr>noteLimit := 7, plan := Free\<rparr>)
     = Some ((proTenant 0)\<lparr>noteLimit := 7, plan := Free\<rparr>)
   \<and> tenantSave True ((freeTenant 3 0)\<lparr>plan := Pro\<rparr>) = Some ((freeTenant 3 0)\<lparr>plan := Pro, noteLimit := - 1\<rparr>)
   \<and> tenantSave True ((proTenant 0)\<lparr>plan := Free\<rparr>) = None
   \<and> (\<exists>t'. findTenantById (snd (upgradeTenant env0 acmeStore acmeAdmin ''acme''))
              ''64f1a2b3c4d5e6f708091b01'' = Some t'
          \<and> plan t' = Pro \<and> noteLimit t' = - 1)"
proof -
  let ?g = "(proTenant 0)\<lparr>noteLimit := 7, plan := Free\<rparr>"
  let ?a = "(freeTenant 3 0)\<lparr>plan := Pro\<rparr>"
  let ?d = "(proTenant 0)\<lparr>plan := Free\<rparr>"
  let ?r = "upgradeTenant env0 acmeStore acmeAdmin ''acme''"
  have g: "tenantValid ?g" "plan ?g = Free"
    by code_simp+
  have a: "tenantValid ?a" "plan ?a = Pro" "noteLimit ?a = 3"
    by code_simp+
  have d: "\<not> tenantValid ?d"
    by code_simp
  have r: "?r = ((200, snd (fst ?r)), snd ?r)"
    by code_simp
  have i: "castObjectId (principal.tenantId acmeAdmin) = Some ''64f1a2b3c4d5e6f708091b01''"
    by code_simp
  note T = planChange_restores_consistency
  have "tenantSave True ?g = Some ?g"
    using T [of ?g, THEN conjunct1] g by simp
  moreover have "tenantSave True ?a = Some (?a\<lparr>noteLimit := - 1\<rparr>)"
    using T [of ?a, THEN conjunct1] a by simp
  moreover have "tenantSave True ?d = None"
    using T [of ?d, THEN conjunct1] d by simp
  moreover have "\<exists>t'. findTenantById (snd ?r) ''64f1a2b3c4d5e6f708091b01'' = Some t'
      \<and> plan t' = Pro \<and> noteLimit t' = - 1"
  proof -
    have "upgradeTenant env0 acmeStore acmeAdmin ''acme'' = ((200, snd (fst ?r)), snd ?r) \<longrightarrow>
        (\<exists>t' oid. castObjectId (principal.tenantId acmeAdmin) = Some oid
              \<and> findTenantById (snd ?r) oid = Some t' \<and> slug t' = ''acme''
              \<and> plan t' = Pro \<and> noteLimit t' = - 1)"
      by (rule T [THEN conjunct2, THEN conjunct2])
    with r obtain t' oid where "castObjectId (principal.tenantId acmeAdmin) = Some oid"
      "findTenantById (snd ?r) oid = Some t'" "plan t' = Pro" "noteLimit t' = - 1"
      by blast
    with i show ?thesis by auto
  qed
  ultimately show ?thesis by blast
qed

text \<open>The claim as stated fails: a tenant saved with its plan set to pro and a held
  limit of 50 is stored with the limit 50.\<close>

theorem planChange_counterexample:
  "plan ((proTenant 0)\<lparr>noteLimit := 50\<rparr>) = Pro
   \<and> noteLimit ((proTenant 0)\<lparr>noteLimit := 50\<rparr>) = 50
   \<and> map_option noteLimit (tenantSave True ((proTenant 0)\<lparr>noteLimit := 50\<rparr>)) = Some 50"
  by code_simp

section \<open>Lockout: theorems\<close>

text \<open>
  Claim C3, as the code has it. When the stored lock lies in the past, a recorded failure
  restarts the counter at 1 and clears the lock, whatever the counter was. Otherwise it
  adds 1 to the counter, so the counter grows, leaves \<open>lastLogin\<close> alone, and sets the lock
  to two hours (7200000 ms) from now exactly when the new counter is at least 5 and the
  user is not locked; else the lock stays as it was.
\<close>

theorem incLoginAttempts_transition:
  "(lockExpired clock s \<longrightarrow>
      incLoginAttempts clock s = s\<lparr>loginAttempts := 1, lockUntil := None\<rparr>)
   \<and> (\<not> lockExpired clock s \<longrightarrow>
        loginAttempts (incLoginAttempts clock s) = loginAttempts s + 1
        \<and> loginAttempts s < loginAttempts (incLoginAttempts clock s)
        \<and> lastLogin (incLoginAttempts clock s) = lastLogin s
        \<and> lockUntil (incLoginAttempts clock s) =
            (if 5 \<le> loginAttempts s + 1 \<and> \<not> isLocked clock s then Some (clock + 7200000)
             else lockUntil s))
   \<and> (lockExpired clock s \<longleftrightarrow> (\<exists>l. lockUntil s = Some l \<and> l < clock))
   \<and> (isLocked clock s \<longleftrightarrow> (\<exists>l. lockUntil s = Some l \<and> clock < l))"
  by (auto simp: incLoginAttempts_def lockExpired_def isLocked_def lockTime_def split: option.splits)

theorem incLoginAttempts_transition_witness:
  "incLoginAttempts 9000000 lockedOut = \<lparr>lastLogin = None, loginAttempts = 1, lockUntil = None\<rparr>
   \<and> incLoginAttempts 1000 \<lparr>lastLogin = None, loginAttempts = 4, lockUntil = None\<rparr>
       = \<lparr>lastLogin = None, loginAttempts = 5, lockUntil = Some 7201000\<rparr>"
proof -
  have x: "lockExpired 9000000 lockedOut"
    by (simp add: lockExpired_def lockedOut_def)
  let ?s = "\<lparr>lastLogin = None, loginAttempts = 4, lockUntil = None\<rparr>"
  have y: "\<not> lockExpired 1000 ?s" "\<not> isLocked 1000 ?s"
    by (simp_all add: lockExpired_def isLocked_def)
  have "incLoginAttempts 9000000 lockedOut = lockedOut\<lparr>loginAttempts := 1, lockUntil := None\<rparr>"
    using incLoginAttempts_transition [of 9000000 lockedOut] x by blast
  moreover have "loginAttempts (incLoginAttempts 1000 ?s) = 5
      \<and> lastLogin (incLoginAttempts 1000 ?s) = None
      \<and> lockUntil (incLoginAttempts 1000 ?s) = Some 7201000"
    using incLoginAttempts_transition [of 1000 ?s] y by simp
  ultimately show ?thesis
    by (cases "incLoginAttempts 1000 ?s") (simp add: lockedOut_def)
qed

text \<open>The claim as stated fails in its last clause: the fifth failure locked the account
  with the counter at 5; a failure after the lock has run out puts the counter at 1.\<close>

theorem incLoginAttempts_counterexample:
  "loginAttempts lockedOut = 5 \<and> loginAttempts (incLoginAttempts 9000000 lockedOut) = 1"
  by (simp add: lockedOut_def incLoginAttempts_def lockExpired_def)

section \<open>Token service: theorems\<close>

text \<open>
  Claim C7, as the code has it. Verified at time \<open>t\<close>, an access token issued for payload
  \<open>p\<close> yields the six paths of \<open>p\<close> with the marker \<open>access\<close>, issue time, expiry, issuer
  and audience, as long as \<open>t\<close> is before the expiry, and fails from the expiry on. A refresh
  token issued for \<open>p\<close> yields only \<open>userId\<close> and \<open>tenantId\<close> of \<open>p\<close>, with the marker
  \<open>refresh\<close>, the fresh revocation identifier and the registered claims, until its expiry.
\<close>

theorem token_roundtrip:
  "verifyToken (e\<lparr>now := t\<rparr>) (generateToken e p) =
     (if t div 1000 < now e div 1000 + JWT_EXPIRES_IN e
      then Some \<lparr>payload.userId = payload.userId p, email = payload.email p,
                 tenantId = payload.tenantId p, tenantSlug = payload.tenantSlug p,
                 role = payload.role p, permissions = payload.permissions p,
                 tokenType = Some ''access'', jti = None,
                 iat = now e div 1000, exp = now e div 1000 + JWT_EXPIRES_IN e,
                 iss = ''notes-saas'', aud = ''notes-saas-users''\<rparr>
      else None)
   \<and> verifyToken (e\<lparr>now := t\<rparr>) (generateRefreshToken e p) =
     (if t div 1000 < now e div 1000 + JWT_REFRESH_EXPIRES_IN e
      then Some \<lparr>payload.userId = payload.userId p, email = None,
                 tenantId = payload.tenantId p, tenantSlug = None,
                 role = None, permissions = None,
                 tokenType = Some ''refresh'', jti = Some (randomUUID e),
                 iat = now e div 1000, exp = now e div 1000 + JWT_REFRESH_EXPIRES_IN e,
                 iss = ''notes-saas'', aud = ''notes-saas-refresh''\<rparr>
      else None)"
  by (simp add: verifyToken_def generateToken_def generateRefreshToken_def jwt_sign_def
      jwt_verify_def nowSeconds_def)

theorem token_roundtrip_witness:
  "map_option payload.truncate (verifyToken (env0\<lparr>now := 2000000\<rparr>) (generateToken env0 alicePayload))
     = Some alicePayload
   \<and> verifyToken (env0\<lparr>now := 605800000\<rparr>) (generateToken env0 alicePayload) = None
   \<and> map_option payload.truncate
        (verifyToken (env0\<lparr>now := 2000000\<rparr>) (generateRefreshToken env0 alicePayload))
     = Some (alicePayload\<lparr>payload.email := None, payload.tenantSlug := None,
               payload.role := None, payload.permissions := None\<rparr>)
   \<and> verifyToken (env0\<lparr>now := 2593000000\<rparr>) (generateRefreshToken env0 alicePayload) = None"
proof -
  have c: "now env0 div 1000 = 1000" "JWT_EXPIRES_IN env0 = 604800"
    "JWT_REFRESH_EXPIRES_IN env0 = 2592000"
    by (simp_all add: env0_def)
  note T = token_roundtrip [where e = env0 and p = alicePayload]
  have "map_option payload.truncate
          (verifyToken (env0\<lparr>now := 2000000\<rparr>) (generateToken env0 alicePayload)) = Some alicePayload"
    using T [of 2000000] by (simp add: c payload.truncate_def)
  moreover have "verifyToken (env0\<lparr>now := 605800000\<rparr>) (generateToken env0 alicePayload) = None"
    using T [of 605800000] by (simp add: c)
  moreover have "map_option payload.truncate
          (verifyToken (env0\<lparr>now := 2000000\<rparr>) (generateRefreshToken env0 alicePayload))
        = Some (alicePayload\<lparr>payload.email := None, payload.tenantSlug := None,
                  payload.role := None, payload.permissions := None\<rparr>)"
    using T [of 2000000] by (simp add: c payload.truncate_def)
  moreover have "verifyToken (env0\<lparr>now := 2593000000\<rparr>) (generateRefreshToken env0 alicePayload) = None"
    using T [of 2593000000] by (simp add: c)
  ultimately show ?thesis by blast
qed

text \<open>The claim as stated fails for refresh tokens: the email of the payload does not
  come back from a refresh token issued for it.\<close>

theorem token_roundtrip_counterexample:
  "payload.email alicePayload = Some ''alice@acme.com''
   \<and> map_option payload.email
        (verifyToken (env0\<lparr>now := 2000000\<rparr>) (generateRefreshToken env0 alicePayload))
       = Some None"
  by (simp add: env0_def alicePayload_def alice_def tokenPayload_def verifyToken_def
      generateRefreshToken_def jwt_sign_def jwt_verify_def nowSeconds_def)

section \<open>Session and auth resolver: theorems\<close>

lemma findTenantById_id: "findTenantById st k = Some t \<Longrightarrow> tenant_id t = k"
  by (auto simp: findTenantById_def find_Some_iff)

lemma castObjectId_length: "castObjectId k = Some oid \<Longrightarrow> length k = 24"
  by (simp add: castObjectId_def split: if_splits)

text \<open>No key the middleware's literal answers to has 24 characters, so none is an
  \<open>ObjectId\<close> string; and every development account is active, with an active tenant
  whose \<open>_id\<close> is the account's tenant reference.\<close>

lemma mockKeys_length:
  "list_all (\<lambda>(u, t). length (user_id u) \<noteq> 24) mockAccounts"
  "list_all (\<lambda>n. length n \<noteq> 24) objectPrototypeNames"
  by code_simp+

lemma mockAccounts_consistent:
  "list_all (\<lambda>(u, t). tenant_id t = user.tenantId u \<and> user.isActive u \<and> tenant.isActive t) mockAccounts"
  by code_simp

lemma devAccount_consistent:
  "devAccount i = Some (u, t) \<Longrightarrow> tenant_id t = user.tenantId u \<and> user.isActive u \<and> tenant.isActive t"
proof -
  assume "devAccount i = Some (u, t)"
  then have "(u, t) \<in> set mockAccounts"
    by (auto simp: devAccount_def find_Some_iff split: option.splits) (metis nth_mem)
  then show ?thesis
    using mockAccounts_consistent by (auto simp: list_all_iff)
qed

lemma devAccount_objectId: "castObjectId k = Some oid \<Longrightarrow> devAccount (Some k) = None"
proof -
  assume "castObjectId k = Some oid"
  then have "length k = 24" by (rule castObjectId_length)
  then show ?thesis
    using mockKeys_length(1) by (auto simp: devAccount_def find_None_iff list_all_iff)
qed

lemma prototypeName_malformed: "k \<in> set objectPrototypeNames \<Longrightarrow> castObjectId k = None"
proof (cases "castObjectId k")
  case None
  then show ?thesis by simp
next
  case (Some oid)
  assume "k \<in> set objectPrototypeNames"
  moreover from Some have "length k = 24" by (rule castObjectId_length)
  ultimately show ?thesis
    using mockKeys_length(2) by (auto simp: list_all_iff)
qed

lemma mockUsersById_devAccount:
  "mockUsersById i =
     (case devAccount i of
        Some (u, t) \<Rightarrow> Own u t
      | None \<Rightarrow>
          (case i of
             None \<Rightarrow> Undefined
           | Some k \<Rightarrow> if k \<in> set objectPrototypeNames then Inherited else Undefined))"
  by (simp add: mockUsersById_def devAccount_def split: option.splits)

lemma mockUsersById_objectId: "castObjectId k = Some oid \<Longrightarrow> mockUsersById (Some k) = Undefined"
  using devAccount_objectId [of k oid] prototypeName_malformed [of k]
  by (auto simp: mockUsersById_devAccount)

lemma findUserById_userWithId:
  "findUserById st i =
     (case i of
        None \<Rightarrow> Result None
      | Some k \<Rightarrow> if castObjectId k = None then CastError else Result (userWithId st i))"
proof (cases i)
  case None
  then show ?thesis by (simp add: findUserById_def)
next
  case (Some k)
  have "find (\<lambda>u. Some (user_id u) = Some oid) xs = find (\<lambda>u. user_id u = oid) xs" for oid and xs :: "user list"
    by simp
  then show ?thesis
    using Some by (auto simp: findUserById_def userWithId_def split: option.splits)
qed

lemma firstFailing_None:
  "firstFailing r = None \<longleftrightarrow>
     credential r \<noteq> None
     \<and> (\<exists>d u t. decoded r = Some d \<and> tokenType d = Some ''access''
           \<and> foundUser r = Some u \<and> user.isActive u
           \<and> foundTenant r = Some t \<and> tenant.isActive t
           \<and> payload.tenantId d = Some (user.tenantId u))"
  by (auto simp: firstFailing_def authChecks_def split: option.splits)

lemma resolverOutcome_principal:
  "(\<exists>p. resolverOutcome r = Inr p) \<longleftrightarrow> firstFailing r = None"
proof
  assume "\<exists>p. resolverOutcome r = Inr p"
  then show "firstFailing r = None"
    by (auto simp: resolverOutcome_def split: option.splits prod.splits)
next
  assume n: "firstFailing r = None"
  then obtain u t where "foundUser r = Some u" "foundTenant r = Some t"
    using firstFailing_None by blast
  with n show "\<exists>p. resolverOutcome r = Inr p"
    by (simp add: resolverOutcome_def)
qed

text \<open>
  The store-backed middleware answers as the ordered checks say: with the \<open>401\<close> answer
  of the first check that fails, and with the principal of the user and tenant exactly
  when no check fails. The one exception is a verified token of type \<open>access\<close> whose
  \<open>userId\<close> is no \<open>ObjectId\<close>: the lookup throws and the answer is
  \<open>500 AUTH_SERVICE_ERROR\<close>, where the checks would say \<open>USER_NOT_FOUND\<close>.
\<close>

lemma authenticate_resolves:
  "authenticate e st authHeader =
     (if malformedUserId (resolve e st authHeader) then Inl authServiceError
      else resolverOutcome (resolve e st authHeader))"
proof (cases "truthy (extractTokenFromHeader authHeader)")
  case False
  then show ?thesis
    by (simp add: authenticate_def resolve_def resolverOutcome_def firstFailing_def authChecks_def
        malformedUserId_def)
next
  case True
  then obtain tok where tok: "extractTokenFromHeader authHeader = Some tok"
    by (auto simp: truthy_def)
  show ?thesis
  proof (cases "verifyToken e tok")
    case None
    then show ?thesis
      using True tok
      by (simp add: authenticate_def resolve_def resolverOutcome_def firstFailing_def authChecks_def
          malformedUserId_def)
  next
    case (Some d)
    show ?thesis
    proof (cases "tokenType d = Some ''access''")
      case False
      then show ?thesis
        using True tok Some
        by (simp add: authenticate_def resolve_def resolverOutcome_def firstFailing_def authChecks_def
            malformedUserId_def)
    next
      case access: True
      show ?thesis
      proof (cases "payload.userId d")
        case None
        then show ?thesis
          using True tok Some access
          by (simp add: authenticate_def resolve_def resolverOutcome_def firstFailing_def authChecks_def
              malformedUserId_def findUserById_def userWithId_def)
      next
        case (Some k)
        note k = this
        show ?thesis
        proof (cases "castObjectId k")
          case None
          then show ?thesis
            using True tok \<open>verifyToken e tok = Some d\<close> access k
            by (simp add: authenticate_def resolve_def malformedUserId_def findUserById_def)
        next
          case (Some oid)
          then have f: "findUserById st (Some k) = Result (userWithId st (Some k))"
            by (simp add: findUserById_userWithId)
          show ?thesis
            using True tok \<open>verifyToken e tok = Some d\<close> access k Some
            by (auto simp: authenticate_def f resolve_def malformedUserId_def resolverOutcome_def
                firstFailing_def authChecks_def principalOf_def Let_def
                dest: findTenantById_id split: option.splits)
        qed
      qed
    qed
  qed
qed

text \<open>
  The middleware with development accounts answers as the ordered checks say, read over
  the development accounts and the connected store, on every request but those set
  apart above.
\<close>

lemma authenticateMock_resolves:
  assumes within: "\<not> beyondDevChecks (resolveDev e st authHeader cookieToken)"
  shows "authenticateMock e st authHeader cookieToken = resolverOutcome (resolveDev e st authHeader cookieToken)"
proof -
  let ?h = "extractTokenFromHeader authHeader"
  let ?cred = "if truthy ?h then ?h else if truthy cookieToken then cookieToken else None"
  show ?thesis
  proof (cases "truthy ?cred")
    case False
    then have "\<not> truthy ?h" "\<not> truthy cookieToken" by (auto split: if_splits)
    then show ?thesis
      by (simp add: authenticateMock_def resolveDev_def Let_def resolverOutcome_def firstFailing_def authChecks_def)
  next
    case True
    then obtain tok where tok: "?cred = Some tok"
      by (auto simp: truthy_def)
    have pick: "(if \<not> truthy ?h \<and> truthy cookieToken then cookieToken else ?h) = Some tok"
      using tok by (auto split: if_splits)
    have tr: "truthy (Some tok)"
      using True tok by simp
    show ?thesis
    proof (cases "verifyToken e tok")
      case None
      then show ?thesis
        using tr tok pick
        by (simp add: authenticateMock_def resolveDev_def Let_def resolverOutcome_def firstFailing_def authChecks_def)
    next
      case (Some d)
      note d = this
      show ?thesis
      proof (cases "tokenType d = Some ''access''")
        case False
        then show ?thesis
          using tr tok pick d
          by (simp add: authenticateMock_def resolveDev_def Let_def resolverOutcome_def firstFailing_def authChecks_def)
      next
        case access: True
        show ?thesis
        proof (cases "devAccount (payload.userId d)")
          case (Some a)
          obtain u t where a: "a = (u, t)" by (cases a)
          have c: "tenant_id t = user.tenantId u" "user.isActive u" "tenant.isActive t"
            using devAccount_consistent Some a by blast+
          have l: "loadUser e st (payload.userId d) = Loaded u (Some t)"
            using Some a by (simp add: loadUser_def mockUsersById_devAccount)
          show ?thesis
            using tr tok pick d access Some a c l
            by (auto simp: authenticateMock_def resolveDev_def Let_def resolverOutcome_def firstFailing_def
                authChecks_def principalOf_def)
        next
          case None
          note nodev = this
          have r: "resolveDev e st authHeader cookieToken =
              \<lparr>credential = Some tok, decoded = Some d,
               foundUser = (if connected e then userWithId st (payload.userId d) else None),
               foundTenant = Option.bind (if connected e then userWithId st (payload.userId d) else None)
                  (\<lambda>u. findTenantById st (user.tenantId u))\<rparr>"
            using tok d nodev by (simp add: resolveDev_def Let_def)
          have wf: "payload.userId d = None \<or> (\<exists>k oid. payload.userId d = Some k \<and> castObjectId k = Some oid)"
            using within access nodev unfolding r by (auto simp: beyondDevChecks_def split: option.splits)
          have inactive: "connected e \<Longrightarrow> userWithId st (payload.userId d) = Some u \<Longrightarrow> \<not> user.isActive u" for u
            using within access nodev unfolding r by (auto simp: beyondDevChecks_def split: option.splits)
          have m: "mockUsersById (payload.userId d) = Undefined"
            using wf nodev prototypeName_malformed by (auto simp: mockUsersById_devAccount)
          have f: "findUserById st (payload.userId d) = Result (userWithId st (payload.userId d))"
            using wf by (auto simp: findUserById_userWithId userWithId_def)
          have l: "loadUser e st (payload.userId d) =
              (if connected e then (case userWithId st (payload.userId d) of
                   None \<Rightarrow> NoUser
                 | Some u \<Rightarrow> (case findTenantBySlug st (user.tenantId u) of
                      None \<Rightarrow> Loaded u None
                    | Some t \<Rightarrow> Loaded u (Some (t\<lparr>tenant_id := user.tenantId u\<rparr>))))
               else NoUser)"
            by (simp add: loadUser_def m f split: option.splits)
          have "authenticateMock e st authHeader cookieToken =
              (if connected e \<and> userWithId st (payload.userId d) \<noteq> None
               then Inl (deny 401 ''User account is deactivated.'' ''USER_INACTIVE'')
               else Inl (deny 401 ''User not found.'' ''USER_NOT_FOUND''))"
            using tr pick d access inactive
            by (auto simp: authenticateMock_def l split: option.splits)
          moreover have "resolverOutcome (resolveDev e st authHeader cookieToken) =
              (if connected e \<and> userWithId st (payload.userId d) \<noteq> None
               then Inl (deny 401 ''User account is deactivated.'' ''USER_INACTIVE'')
               else Inl (deny 401 ''User not found.'' ''USER_NOT_FOUND''))"
            unfolding r using access inactive
            by (auto simp: resolverOutcome_def firstFailing_def authChecks_def)
          ultimately show ?thesis by simp
        qed
      qed
    qed
  qed
qed

text \<open>
  What that middleware answers on the requests set apart. A \<open>userId\<close> that is no
  \<open>ObjectId\<close> and no development account is answered \<open>USER_INACTIVE\<close> when it is the
  name of an inherited member of the accounts literal, otherwise \<open>500\<close> when the store is
  connected and \<open>USER_NOT_FOUND\<close> when it is not. For an active stored user the tenant is
  sought by \<open>slug = user.tenantId\<close>: the answer is \<open>TENANT_INACTIVE\<close> when no tenant
  has that slug, and is otherwise decided on the tenant that has it.
\<close>

lemma authenticateMock_malformed:
  "verifyToken e tok = Some d \<Longrightarrow> tokenType d = Some ''access'' \<Longrightarrow>
   payload.userId d = Some k \<Longrightarrow> castObjectId k = None \<Longrightarrow> devAccount (Some k) = None \<Longrightarrow>
   authenticateMock e st (Some [Raw ''Bearer'', tok]) cookieToken =
     (if k \<in> set objectPrototypeNames
      then Inl (401, ErrorBody ''User account is deactivated.'' ''USER_INACTIVE'' None)
      else if connected e
      then Inl (500, ErrorBody ''Authentication service error.'' ''AUTH_SERVICE_ERROR'' None)
      else Inl (401, ErrorBody ''User not found.'' ''USER_NOT_FOUND'' None))"
proof -
  assume v: "verifyToken e tok = Some d" "tokenType d = Some ''access''"
    and k: "payload.userId d = Some k" "castObjectId k = None" "devAccount (Some k) = None"
  from v(1) have "tok \<noteq> Raw []"
    by (auto simp: verifyToken_def jwt_verify_def)
  then have h: "extractTokenFromHeader (Some [Raw ''Bearer'', tok]) = Some tok" "truthy (Some tok)"
    by (simp_all add: extractTokenFromHeader_def truthy_def)
  have l: "loadUser e st (Some k) =
      (if k \<in> set objectPrototypeNames then PrototypeMember else if connected e then Threw else NoUser)"
    using k(2,3) by (simp add: loadUser_def mockUsersById_devAccount findUserById_def)
  show ?thesis
    using h v k(1) by (simp add: authenticateMock_def l authServiceError_def deny_def)
qed

lemma authenticateMock_stored_user:
  "connected e \<Longrightarrow> verifyToken e tok = Some d \<Longrightarrow> tokenType d = Some ''access'' \<Longrightarrow>
   payload.userId d = Some k \<Longrightarrow> castObjectId k = Some oid \<Longrightarrow>
   find (\<lambda>u. user_id u = oid) (users st) = Some u \<Longrightarrow> user.isActive u \<Longrightarrow>
   authenticateMock e st (Some [Raw ''Bearer'', tok]) cookieToken =
     (case findTenantBySlug st (user.tenantId u) of
        None \<Rightarrow> Inl (401, ErrorBody ''Tenant account is inactive.'' ''TENANT_INACTIVE'' None)
      | Some t \<Rightarrow>
          if \<not> tenant.isActive t
          then Inl (401, ErrorBody ''Tenant account is inactive.'' ''TENANT_INACTIVE'' None)
          else if Some (user.tenantId u) \<noteq> payload.tenantId d
          then Inl (401, ErrorBody ''Token tenant mismatch.'' ''TENANT_MISMATCH'' None)
          else Inr (principalOf u (t\<lparr>tenant_id := user.tenantId u\<rparr>)))"
proof -
  assume c: "connected e"
    and v: "verifyToken e tok = Some d" "tokenType d = Some ''access''"
    and k: "payload.userId d = Some k" "castObjectId k = Some oid"
    and u: "find (\<lambda>u. user_id u = oid) (users st) = Some u" "user.isActive u"
  from v(1) have "tok \<noteq> Raw []"
    by (auto simp: verifyToken_def jwt_verify_def)
  then have h: "extractTokenFromHeader (Some [Raw ''Bearer'', tok]) = Some tok" "truthy (Some tok)"
    by (simp_all add: extractTokenFromHeader_def truthy_def)
  have f: "findUserById st (Some k) = Result (Some u)"
    using k u by (simp add: findUserById_def)
  have m: "mockUsersById (Some k) = Undefined"
    using k mockUsersById_objectId by simp
  have l: "loadUser e st (Some k) =
      (case findTenantBySlug st (user.tenantId u) of
         None \<Rightarrow> Loaded u None
       | Some t \<Rightarrow> Loaded u (Some (t\<lparr>tenant_id := user.tenantId u\<rparr>)))"
    using c f m by (simp add: loadUser_def)
  show ?thesis
    using h v k(1) u(2) by (simp add: authenticateMock_def l deny_def split: option.splits)
qed

text \<open>
  So for a request that passes every check (a bearer credential that verifies to claims
  of type \<open>access\<close>, naming a stored active user whose owning tenant is stored and active
  and is the tenant of the token) the store-backed middleware attaches the principal, and
  the middleware with development accounts, on the same connected store, answers
  \<open>401 TENANT_INACTIVE\<close> unless some tenant's slug happens to be the user's tenant
  reference.
\<close>

lemma authenticateMock_looks_up_tenant_by_slug:
  "connected e \<Longrightarrow>
   verifyToken e tok = Some d \<Longrightarrow> tokenType d = Some ''access'' \<Longrightarrow>
   payload.userId d = Some k \<Longrightarrow> castObjectId k = Some oid \<Longrightarrow>
   find (\<lambda>u. user_id u = oid) (users st) = Some u \<Longrightarrow> user.isActive u \<Longrightarrow>
   findTenantById st (user.tenantId u) = Some t \<Longrightarrow> tenant.isActive t \<Longrightarrow>
   payload.tenantId d = Some (tenant_id t) \<Longrightarrow>
   findTenantBySlug st (user.tenantId u) = None \<Longrightarrow>
   authenticate e st (Some [Raw ''Bearer'', tok]) = Inr (principalOf u t)
   \<and> authenticateMock e st (Some [Raw ''Bearer'', tok]) None
       = Inl (401, ErrorBody ''Tenant account is inactive.'' ''TENANT_INACTIVE'' None)"
proof -
  assume c: "connected e"
    and v: "verifyToken e tok = Some d" "tokenType d = Some ''access''"
    and k: "payload.userId d = Some k" "castObjectId k = Some oid"
    and u: "find (\<lambda>u. user_id u = oid) (users st) = Some u" "user.isActive u"
    and t: "findTenantById st (user.tenantId u) = Some t" "tenant.isActive t"
      "payload.tenantId d = Some (tenant_id t)"
    and s: "findTenantBySlug st (user.tenantId u) = None"
  from v(1) have "tok \<noteq> Raw []"
    by (auto simp: verifyToken_def jwt_verify_def)
  then have h: "extractTokenFromHeader (Some [Raw ''Bearer'', tok]) = Some tok" "truthy (Some tok)"
    by (simp_all add: extractTokenFromHeader_def truthy_def)
  have f: "findUserById st (payload.userId d) = Result (Some u)"
    using k u by (simp add: findUserById_def)
  have m: "mockUsersById (payload.userId d) = Undefined"
    using k mockUsersById_objectId by simp
  have l: "loadUser e st (payload.userId d) = Loaded u None"
    using c f m s by (simp add: loadUser_def)
  have "authenticate e st (Some [Raw ''Bearer'', tok]) = Inr (principalOf u t)"
    using h v f u(2) t by (simp add: authenticate_def)
  moreover have "authenticateMock e st (Some [Raw ''Bearer'', tok]) None
       = Inl (401, ErrorBody ''Tenant account is inactive.'' ''TENANT_INACTIVE'' None)"
    using h v l u(2) by (simp add: authenticateMock_def deny_def)
  ultimately show ?thesis by simp
qed

lemma authenticateMock_denies_stored_user:
  "authenticate env0 acmeStore (Some [Raw ''Bearer'', generateToken env0 alicePayload])
     = Inr \<lparr>userId = ''64f1a2b3c4d5e6f708091a01'', tenantId = ''64f1a2b3c4d5e6f708091b01'',
            tenantSlug = ''acme'', role = Member, permissions = user.permissions alice,
            isAdmin = False\<rparr>
   \<and> authenticateMock env0 acmeStore (Some [Raw ''Bearer'', generateToken env0 alicePayload]) None
       = Inl (401, ErrorBody ''Tenant account is inactive.'' ''TENANT_INACTIVE'' None)
   \<and> findTenantById acmeStore (user.tenantId alice) = Some (freeTenant 3 0)
   \<and> tenant.isActive (freeTenant 3 0)"
proof -
  let ?tok = "generateToken env0 alicePayload"
  obtain d where d: "verifyToken env0 ?tok = Some d"
    by (simp add: verifyToken_def generateToken_def jwt_sign_def jwt_verify_def nowSeconds_def env0_def)
  then have dd: "tokenType d = Some ''access''" "payload.userId d = Some ''64f1a2b3c4d5e6f708091a01''"
    "payload.tenantId d = Some (tenant_id (freeTenant 3 0))"
    by (auto simp: verifyToken_def generateToken_def jwt_sign_def jwt_verify_def nowSeconds_def
        env0_def alicePayload_def tokenPayload_def alice_def freeTenant_def mockTenant_def
        split: if_splits)
  have c: "connected env0" by (simp add: env0_def)
  have k: "castObjectId ''64f1a2b3c4d5e6f708091a01'' = Some ''64f1a2b3c4d5e6f708091a01''"
    by code_simp
  have u: "find (\<lambda>u. user_id u = ''64f1a2b3c4d5e6f708091a01'') (users acmeStore) = Some alice"
    "user.isActive alice"
    by code_simp+
  have t: "findTenantById acmeStore (user.tenantId alice) = Some (freeTenant 3 0)"
    "tenant.isActive (freeTenant 3 0)"
    by code_simp+
  have s: "findTenantBySlug acmeStore (user.tenantId alice) = None"
    by code_simp
  have p: "principalOf alice (freeTenant 3 0)
      = \<lparr>userId = ''64f1a2b3c4d5e6f708091a01'', tenantId = ''64f1a2b3c4d5e6f708091b01'',
         tenantSlug = ''acme'', role = Member, permissions = user.permissions alice,
         isAdmin = False\<rparr>"
    by (simp add: principalOf_def alice_def freeTenant_def mockTenant_def)
  from authenticateMock_looks_up_tenant_by_slug [OF c d dd(1) dd(2) k u t dd(3) s]
  have A: "authenticate env0 acmeStore (Some [Raw ''Bearer'', ?tok]) = Inr (principalOf alice (freeTenant 3 0))"
    and B: "authenticateMock env0 acmeStore (Some [Raw ''Bearer'', ?tok]) None
       = Inl (401, ErrorBody ''Tenant account is inactive.'' ''TENANT_INACTIVE'' None)"
    by blast+
  show ?thesis
    using A [unfolded p] B t by (intro conjI) assumption+
qed

text \<open>
  Claim C1, as the code has it. Each \<open>authenticate\<close> middleware answers as the ordered
  checks say: with the \<open>401\<close> answer of the first check that fails, in the order missing
  credential (\<open>NO_TOKEN\<close>), verification failure (\<open>INVALID_TOKEN\<close>), token type other
  than \<open>access\<close> (\<open>INVALID_TOKEN_TYPE\<close>), user not found (\<open>USER_NOT_FOUND\<close>), user
  inactive (\<open>USER_INACTIVE\<close>), tenant missing or inactive (\<open>TENANT_INACTIVE\<close>), token
  tenant different from the user's tenant (\<open>TENANT_MISMATCH\<close>); and with the principal of
  the user and tenant exactly when no check fails. For the store-backed middleware the
  credential is the bearer token, the user is the stored user with the token's \<open>userId\<close>
  and the tenant is the stored tenant that user refers to. For the middleware with
  development accounts the credential is the bearer token or else the cookie, a \<open>userId\<close>
  naming a development account is that account with its hardcoded tenant, and any other
  user is sought in the store while it is connected. Nothing is said here of a \<open>userId\<close>
  that is neither absent, an \<open>ObjectId\<close> string nor a development account, nor of what
  the middleware with development accounts answers for an active stored user.
\<close>

theorem authenticate_first_failing_check:
  "(\<not> malformedUserId (resolve e st authHeader) \<longrightarrow>
      authenticate e st authHeader = resolverOutcome (resolve e st authHeader))
   \<and> (\<not> beyondDevChecks (resolveDev e st authHeader cookieToken) \<longrightarrow>
        authenticateMock e st authHeader cookieToken
          = resolverOutcome (resolveDev e st authHeader cookieToken))
   \<and> ((\<exists>p. resolverOutcome r = Inr p) \<longleftrightarrow>
        credential r \<noteq> None
        \<and> (\<exists>d u t. decoded r = Some d \<and> tokenType d = Some ''access''
              \<and> foundUser r = Some u \<and> user.isActive u
              \<and> foundTenant r = Some t \<and> tenant.isActive t
              \<and> payload.tenantId d = Some (user.tenantId u)))"
  using authenticate_resolves [of e st authHeader] authenticateMock_resolves [of e st authHeader cookieToken]
    resolverOutcome_principal [of r] firstFailing_None [of r]
  by simp

theorem authenticate_first_failing_check_witness:
  "authenticate env0 acmeStore None = Inl (401, ErrorBody ''Access denied. No token provided.'' ''NO_TOKEN'' None)
   \<and> authenticate env0 acmeStore (Some [Raw ''Bearer'', generateRefreshToken env0 alicePayload])
       = Inl (401, ErrorBody ''Invalid token type.'' ''INVALID_TOKEN_TYPE'' None)
   \<and> authenticate env0 acmeStore (Some [Raw ''Bearer'', generateToken env0 alicePayload])
       = Inr \<lparr>userId = ''64f1a2b3c4d5e6f708091a01'', tenantId = ''64f1a2b3c4d5e6f708091b01'',
              tenantSlug = ''acme'', role = Member, permissions = user.permissions alice,
              isAdmin = False\<rparr>
   \<and> authenticateMock env0 emptyStore None (Some (generateToken env0 mockAdminPayload))
       = Inr \<lparr>userId = ''mock-admin-acme'', tenantId = ''mock-tenant-acme'', tenantSlug = ''acme'',
              role = Admin, permissions = allPermissions, isAdmin = True\<rparr>
   \<and> authenticateMock env0 emptyStore (Some [Raw ''Bearer'', generateToken env0 alicePayload]) None
       = Inl (401, ErrorBody ''User not found.'' ''USER_NOT_FOUND'' None)"
proof -
  let ?refresh = "Some [Raw ''Bearer'', generateRefreshToken env0 alicePayload]"
  let ?access = "Some [Raw ''Bearer'', generateToken env0 alicePayload]"
  let ?cookie = "Some (generateToken env0 mockAdminPayload)"
  note T = authenticate_first_failing_check
  have w: "\<not> malformedUserId (resolve env0 acmeStore None)"
    "\<not> malformedUserId (resolve env0 acmeStore ?refresh)"
    "\<not> malformedUserId (resolve env0 acmeStore ?access)"
    "\<not> beyondDevChecks (resolveDev env0 emptyStore None ?cookie)"
    "\<not> beyondDevChecks (resolveDev env0 emptyStore ?access None)"
    by code_simp+
  have 1: "resolverOutcome (resolve env0 acmeStore None)
      = Inl (401, ErrorBody ''Access denied. No token provided.'' ''NO_TOKEN'' None)"
    by code_simp
  have 2: "resolverOutcome (resolve env0 acmeStore ?refresh)
      = Inl (401, ErrorBody ''Invalid token type.'' ''INVALID_TOKEN_TYPE'' None)"
    by code_simp
  have 3: "resolverOutcome (resolve env0 acmeStore ?access)
      = Inr \<lparr>userId = ''64f1a2b3c4d5e6f708091a01'', tenantId = ''64f1a2b3c4d5e6f708091b01'',
              tenantSlug = ''acme'', role = Member, permissions = user.permissions alice,
              isAdmin = False\<rparr>"
    by code_simp
  have 4: "resolverOutcome (resolveDev env0 emptyStore None ?cookie)
      = Inr \<lparr>userId = ''mock-admin-acme'', tenantId = ''mock-tenant-acme'', tenantSlug = ''acme'',
              role = Admin, permissions = allPermissions, isAdmin = True\<rparr>"
    by code_simp
  have 5: "resolverOutcome (resolveDev env0 emptyStore ?access None)
      = Inl (401, ErrorBody ''User not found.'' ''USER_NOT_FOUND'' None)"
    by code_simp
  have "authenticate env0 acmeStore None = resolverOutcome (resolve env0 acmeStore None)"
    using T [of env0 acmeStore None, THEN conjunct1] w(1) by (rule mp)
  moreover have "authenticate env0 acmeStore ?refresh = resolverOutcome (resolve env0 acmeStore ?refresh)"
    using T [of env0 acmeStore ?refresh, THEN conjunct1] w(2) by (rule mp)
  moreover have "authenticate env0 acmeStore ?access = resolverOutcome (resolve env0 acmeStore ?access)"
    using T [of env0 acmeStore ?access, THEN conjunct1] w(3) by (rule mp)
  moreover have "authenticateMock env0 emptyStore None ?cookie
      = resolverOutcome (resolveDev env0 emptyStore None ?cookie)"
    using T [of env0 emptyStore None ?cookie, THEN conjunct2, THEN conjunct1] w(4) by (rule mp)
  moreover have "authenticateMock env0 emptyStore ?access None
      = resolverOutcome (resolveDev env0 emptyStore ?access None)"
    using T [of env0 emptyStore ?access None, THEN conjunct2, THEN conjunct1] w(5) by (rule mp)
  ultimately show ?thesis
    unfolding 1 2 3 4 5 by (intro conjI) assumption+
qed

text \<open>The claim as stated fails: with no user in the store, a token that names a
  development account resolves to that account's principal.\<close>

theorem authenticate_counterexample:
  "users emptyStore = []
   \<and> authenticateMock env0 emptyStore (Some [Raw ''Bearer'', generateToken env0 mockAdminPayload]) None
       = Inr \<lparr>userId = ''mock-admin-acme'', tenantId = ''mock-tenant-acme'', tenantSlug = ''acme'',
              role = Admin, permissions = allPermissions, isAdmin = True\<rparr>"
  by code_simp

section \<open>Refresh flow: theorems\<close>

text \<open>
  Where the verification call of the first handler returns claims, the handler does
  check the type marker; the second handler has no such check and mints an access token
  for whatever verified claims name an active user with a tenant.
\<close>

lemma refreshToken_checks_type:
  "truthy tok \<Longrightarrow> verify (the tok) = Some d \<Longrightarrow> tokenType d \<noteq> Some ''refresh'' \<Longrightarrow>
   refreshToken verify e st tok = (401, ErrorBody ''Invalid token type'' ''INVALID_TOKEN_TYPE'' None)"
  by (simp add: refreshToken_def deny_def)

lemma refreshTokenMock_ignores_type:
  "truthy tok \<Longrightarrow> verify (the tok) = Some d \<Longrightarrow>
   findUserById st (payload.userId d) = Result (Some u) \<Longrightarrow>
   user.isActive u \<Longrightarrow> findTenantById st (user.tenantId u) = Some t \<Longrightarrow>
   refreshTokenMock verify e st tok = (200, RefreshBody (generateToken e (tokenPayload u t)))"
  by (simp add: refreshTokenMock_def)

text \<open>
  Claim C4, where the code departs from it. Whatever the verification call is bound to,
  the second \<open>refreshToken\<close> handler never answers \<open>INVALID_TOKEN_TYPE\<close>; and in the
  controller modules as they stand (the call unbound) both handlers answer every token
  they are given with \<open>INVALID_REFRESH_TOKEN\<close>, so a token of type \<open>access\<close> is turned
  away by the catch-all answer and not by a check of its type.
\<close>

theorem refresh_has_no_type_answer:
  "truthy tok \<Longrightarrow>
     responseCode (refreshTokenMock verify e st tok) \<noteq> Some ''INVALID_TOKEN_TYPE''
   \<and> refreshTokenMock unbound e st tok = (401, ErrorBody ''Invalid refresh token'' ''INVALID_REFRESH_TOKEN'' None)
   \<and> refreshToken unbound e st tok = (401, ErrorBody ''Invalid refresh token'' ''INVALID_REFRESH_TOKEN'' None)"
  by (auto simp: refreshTokenMock_def refreshToken_def unbound_def deny_def responseCode_def
      split: option.splits query.splits)

theorem refresh_has_no_type_answer_witness:
  "map_option tokenType (verifyToken env0 (generateToken env0 alicePayload)) = Some (Some ''access'')
   \<and> refreshTokenMock unbound env0 acmeStore (Some (generateToken env0 alicePayload))
     = (401, ErrorBody ''Invalid refresh token'' ''INVALID_REFRESH_TOKEN'' None)
   \<and> refreshToken unbound env0 acmeStore (Some (generateToken env0 alicePayload))
     = (401, ErrorBody ''Invalid refresh token'' ''INVALID_REFRESH_TOKEN'' None)"
proof -
  have a: "truthy (Some (generateToken env0 alicePayload))"
    by (simp add: truthy_def generateToken_def jwt_sign_def)
  have b: "map_option tokenType (verifyToken env0 (generateToken env0 alicePayload)) = Some (Some ''access'')"
    by (simp add: verifyToken_def generateToken_def jwt_sign_def jwt_verify_def nowSeconds_def env0_def)
  from refresh_has_no_type_answer [OF a, of unbound env0 acmeStore] b show ?thesis by blast
qed

section \<open>Login: theorems\<close>

text \<open>
  Claim C5. In the store-backed \<open>login\<close> handler, a login whose lowercased email names no
  active user and a login with a wrong password on an existing account that is not locked
  get the same response: status \<open>401\<close> with the same error text and the code
  \<open>INVALID_CREDENTIALS\<close>, and no further field.
\<close>

theorem login_failure_indistinguishable:
  "find (\<lambda>u. user.email u = toLowerCase em1 \<and> user.isActive u) (users st1) = None \<Longrightarrow>
   find (\<lambda>u. user.email u = toLowerCase em2 \<and> user.isActive u) (users st2) = Some u \<Longrightarrow>
   \<not> isLocked (now e2) (security u) \<Longrightarrow>
   \<not> comparePassword e2 u pw2 \<Longrightarrow>
   fst (login e1 st1 em1 pw1) = (401, ErrorBody ''Invalid email or password'' ''INVALID_CREDENTIALS'' None)
   \<and> fst (login e2 st2 em2 pw2) = fst (login e1 st1 em1 pw1)"
  by (simp add: login_def invalidCredentials_def deny_def)

theorem login_failure_indistinguishable_witness:
  "fst (login env0 acmeStore ''nobody@acme.com'' ''Secret1'')
     = (401, ErrorBody ''Invalid email or password'' ''INVALID_CREDENTIALS'' None)
   \<and> fst (login env0 acmeStore ''Alice@Acme.com'' ''Wrong-1'')
     = fst (login env0 acmeStore ''nobody@acme.com'' ''Secret1'')"
proof -
  have a: "find (\<lambda>u. user.email u = toLowerCase ''nobody@acme.com'' \<and> user.isActive u) (users acmeStore) = None"
    by code_simp
  have b: "find (\<lambda>u. user.email u = toLowerCase ''Alice@Acme.com'' \<and> user.isActive u) (users acmeStore) = Some alice"
    by code_simp
  have c: "\<not> isLocked (now env0) (security alice)"
    by code_simp
  have d: "\<not> comparePassword env0 alice ''Wrong-1''"
    by code_simp
  show ?thesis
    by (rule login_failure_indistinguishable [OF a b c d])
qed

lemma mockUsersByEmail_known:
  "k \<in> set mockAddresses \<Longrightarrow>
   \<exists>mu mt. mockUsersByEmail k = Some (mu, mt) \<and> user.password mu = mockPasswordHash \<and> tenant.isActive mt"
  by (auto simp: mockAddresses_def mockUsersByEmail_def mockAccounts_def mockUser_def mockTenantAcme_def
      mockTenantGlobex_def mockTenant_def)

lemma loginMock_mock_store:
  "toLowerCase em \<in> set mockAddresses \<Longrightarrow> snd (loginMock e st em pw) = st"
proof -
  assume "toLowerCase em \<in> set mockAddresses"
  then obtain mu mt where "mockUsersByEmail (toLowerCase em) = Some (mu, mt)"
    using mockUsersByEmail_known by blast
  then show ?thesis by (simp add: loginMock_def Let_def)
qed

lemma loginMockAll_store:
  "\<forall>(em, pw) \<in> set attempts. toLowerCase em \<in> set mockAddresses \<Longrightarrow> loginMockAll e st attempts = st"
proof (induction attempts arbitrary: st)
  case Nil
  then show ?case by (simp add: loginMockAll_def)
next
  case (Cons a attempts)
  obtain em pw where a: "a = (em, pw)" by (cases a)
  with Cons.prems have "toLowerCase em \<in> set mockAddresses" by simp
  then have "snd (loginMock e st em pw) = st" by (rule loginMock_mock_store)
  moreover have "loginMockAll e st (a # attempts) = loginMockAll e (snd (loginMock e st em pw)) attempts"
    by (simp add: loginMockAll_def a)
  ultimately show ?case using Cons by simp
qed

text \<open>
  Claim C6. In the \<open>login\<close> handler with development accounts, a login whose lowercased
  email is one of the four hardcoded addresses is decided by \<open>bcrypt.compare\<close> of the
  password with the hardcoded hash alone: the response is the same for every store and
  whether or not the store is connected, the store is left as it was (no failed attempt is
  recorded), a wrong password is answered with \<open>401 INVALID_CREDENTIALS\<close>, a right one
  with \<open>200\<close>, and the answer is never \<open>423 ACCOUNT_LOCKED\<close>. Any sequence of such
  logins, failed or not, leaves the store as it was.
\<close>

theorem mock_login_bypasses_store:
  "toLowerCase em \<in> set mockAddresses \<Longrightarrow>
     fst (loginMock e st em pw) = fst (loginMock (e\<lparr>connected := c\<rparr>) st' em pw)
   \<and> snd (loginMock e st em pw) = st
   \<and> (\<not> bcryptCompare e pw mockPasswordHash \<longrightarrow>
        fst (loginMock e st em pw) = (401, ErrorBody ''Invalid email or password'' ''INVALID_CREDENTIALS'' None))
   \<and> (bcryptCompare e pw mockPasswordHash \<longrightarrow> fst (fst (loginMock e st em pw)) = 200)
   \<and> fst (fst (loginMock e st em pw)) \<noteq> 423
   \<and> responseCode (fst (loginMock e st em pw)) \<noteq> Some ''ACCOUNT_LOCKED''
   \<and> ((\<forall>(em', pw') \<in> set attempts. toLowerCase em' \<in> set mockAddresses) \<longrightarrow>
        loginMockAll e st attempts = st)"
proof -
  assume "toLowerCase em \<in> set mockAddresses"
  then obtain mu mt where m: "mockUsersByEmail (toLowerCase em) = Some (mu, mt)"
      "user.password mu = mockPasswordHash" "tenant.isActive mt"
    using mockUsersByEmail_known by blast
  have "fst (loginMock e st em pw) = fst (loginMock (e\<lparr>connected := c\<rparr>) st' em pw)
   \<and> snd (loginMock e st em pw) = st
   \<and> (\<not> bcryptCompare e pw mockPasswordHash \<longrightarrow>
        fst (loginMock e st em pw) = (401, ErrorBody ''Invalid email or password'' ''INVALID_CREDENTIALS'' None))
   \<and> (bcryptCompare e pw mockPasswordHash \<longrightarrow> fst (fst (loginMock e st em pw)) = 200)
   \<and> fst (fst (loginMock e st em pw)) \<noteq> 423
   \<and> responseCode (fst (loginMock e st em pw)) \<noteq> Some ''ACCOUNT_LOCKED''"
    using m
    by (simp add: loginMock_def Let_def invalidCredentials_def deny_def loginSuccessful_def
        generateToken_def generateRefreshToken_def nowSeconds_def responseCode_def)
  then show ?thesis
    using loginMockAll_store by blast
qed

theorem mock_login_bypasses_store_witness:
  "fst (loginMock strictEnv acmeStore ''Admin@Acme.test'' ''guess-1'')
     = (401, ErrorBody ''Invalid email or password'' ''INVALID_CREDENTIALS'' None)
   \<and> snd (loginMock strictEnv acmeStore ''Admin@Acme.test'' ''guess-1'') = acmeStore
   \<and> fst (fst (loginMock strictEnv emptyStore ''Admin@Acme.test'' ''password'')) = 200
   \<and> loginMockAll strictEnv acmeStore
        [(''Admin@Acme.test'', ''guess-1''), (''admin@acme.test'', ''guess-2''),
         (''admin@acme.test'', ''guess-3''), (''admin@acme.test'', ''guess-4''),
         (''admin@acme.test'', ''guess-5''), (''admin@acme.test'', ''guess-6'')] = acmeStore"
proof -
  let ?xs = "[(''Admin@Acme.test'', ''guess-1''), (''admin@acme.test'', ''guess-2''),
         (''admin@acme.test'', ''guess-3''), (''admin@acme.test'', ''guess-4''),
         (''admin@acme.test'', ''guess-5''), (''admin@acme.test'', ''guess-6'')]"
  have a: "toLowerCase ''Admin@Acme.test'' \<in> set mockAddresses"
    by code_simp
  have b: "\<not> bcryptCompare strictEnv ''guess-1'' mockPasswordHash"
    by (simp add: strictEnv_def env0_def)
  have c: "bcryptCompare strictEnv ''password'' mockPasswordHash"
    by (simp add: strictEnv_def env0_def)
  have d: "\<forall>(em', pw') \<in> set ?xs. toLowerCase em' \<in> set mockAddresses"
    by code_simp
  from mock_login_bypasses_store [OF a, of strictEnv acmeStore "''guess-1''" _ _ ?xs] b d
    mock_login_bypasses_store [OF a, of strictEnv emptyStore "''password''"] c
  show ?thesis by blast
qed

text \<open>The store-backed handler resolves the tenant first: with a right password on an
  account that is not locked and a tenant that is missing or inactive, it answers
  \<open>403 TENANT_INACTIVE\<close> and leaves the store as it was.\<close>

lemma login_tenant_inactive_keeps_state:
  "find (\<lambda>u. user.email u = toLowerCase em \<and> user.isActive u) (users st) = Some u \<Longrightarrow>
   \<not> isLocked (now e) (security u) \<Longrightarrow> comparePassword e u pw \<Longrightarrow>
   (case findTenantById st (user.tenantId u) of None \<Rightarrow> True | Some t \<Rightarrow> \<not> tenant.isActive t) \<Longrightarrow>
   login e st em pw = ((403, ErrorBody ''Organization account is inactive'' ''TENANT_INACTIVE'' None), st)"
  by (auto simp: login_def tenantInactive_def deny_def split: option.splits)

text \<open>In the handler with development accounts a store user whose tenant is found and
  who is not locked is answered \<open>500\<close>, whatever the password.\<close>

lemma loginMock_store_user_with_tenant:
  "mockUsersByEmail (toLowerCase em) = None \<Longrightarrow> connected e \<Longrightarrow>
   find (\<lambda>u. user.email u = toLowerCase em \<and> user.isActive u) (users st) = Some u \<Longrightarrow>
   findTenantBySlug st (user.tenantId u) = Some t \<Longrightarrow>
   \<not> isLocked (now e) (security u) \<Longrightarrow>
   loginMock e st em pw = ((500, ErrorBody ''Login service error'' ''LOGIN_SERVICE_ERROR'' None), st)"
  by (simp add: loginMock_def Let_def loginServiceError_def deny_def)

text \<open>
  Claim C10, where the code departs from it. In the handler with development accounts, a
  store user who is not locked, gives the right password and whose tenant is not found is
  answered \<open>403 TENANT_INACTIVE\<close> after the success has been recorded: the stored
  security state has \<open>loginAttempts\<close> and \<open>lockUntil\<close> cleared and \<open>lastLogin\<close> set to now.
\<close>

theorem loginMock_resets_before_tenant_check:
  "mockUsersByEmail (toLowerCase em) = None \<Longrightarrow> connected e \<Longrightarrow>
   find (\<lambda>u. user.email u = toLowerCase em \<and> user.isActive u) (users st) = Some u \<Longrightarrow>
   findTenantBySlug st (user.tenantId u) = None \<Longrightarrow>
   \<not> isLocked (now e) (security u) \<Longrightarrow> comparePassword e u pw \<Longrightarrow>
   loginMock e st em pw =
     ((403, ErrorBody ''Organization account is inactive'' ''TENANT_INACTIVE'' None),
      updateUser st (user_id u)
        (\<lambda>v. v\<lparr>security := (security v)\<lparr>loginAttempts := 0, lockUntil := None, lastLogin := Some (now e)\<rparr>\<rparr>))"
  by (simp add: loginMock_def Let_def tenantInactive_def deny_def resetLoginAttempts_def)

theorem loginMock_resets_before_tenant_check_witness:
  "loginMock env0 orphanStore ''alice@acme.com'' ''Secret1'' =
     ((403, ErrorBody ''Organization account is inactive'' ''TENANT_INACTIVE'' None),
      \<lparr>users = [alice\<lparr>security := \<lparr>lastLogin = Some 1000000, loginAttempts = 0, lockUntil = None\<rparr>\<rparr>],
       tenants = []\<rparr>)
   \<and> security alice = \<lparr>lastLogin = None, loginAttempts = 3, lockUntil = None\<rparr>"
proof -
  have a: "mockUsersByEmail (toLowerCase ''alice@acme.com'') = None"
    by code_simp
  have b: "connected env0" by (simp add: env0_def)
  have c: "find (\<lambda>u. user.email u = toLowerCase ''alice@acme.com'' \<and> user.isActive u) (users orphanStore) = Some alice"
    by code_simp
  have d: "findTenantBySlug orphanStore (user.tenantId alice) = None"
    by (simp add: findTenantBySlug_def orphanStore_def)
  have f: "\<not> isLocked (now env0) (security alice)" by code_simp
  have g: "comparePassword env0 alice ''Secret1''" by code_simp
  have "updateUser orphanStore (user_id alice)
        (\<lambda>v. v\<lparr>security := (security v)\<lparr>loginAttempts := 0, lockUntil := None, lastLogin := Some (now env0)\<rparr>\<rparr>)
      = \<lparr>users = [alice\<lparr>security := \<lparr>lastLogin = Some 1000000, loginAttempts = 0, lockUntil = None\<rparr>\<rparr>], tenants = []\<rparr>"
    by (simp add: updateUser_def orphanStore_def alice_def env0_def)
  moreover have "security alice = \<lparr>lastLogin = None, loginAttempts = 3, lockUntil = None\<rparr>"
    by (simp add: alice_def)
  ultimately show ?thesis
    using loginMock_resets_before_tenant_check [OF a b c d f g] by simp
qed

section \<open>Registration: theorems\<close>

text \<open>The derived slug holds only lower-case letters, digits and hyphens, so the
  schema's \<open>lowercase\<close> and \<open>trim\<close> setters store it as it is.\<close>

lemma set_dropWhile_subset: "set (dropWhile P xs) \<subseteq> set xs"
  by (auto dest: set_dropWhileD)

lemma set_replaceSpaceRuns:
  "set (replaceSpaceRuns s) \<subseteq> {c \<in> set s. \<not> isSpace c} \<union> {CHR ''-''}"
proof (induction s rule: replaceSpaceRuns.induct)
  case 1
  then show ?case by simp
next
  case (2 c cs)
  have "set (dropWhile isSpace cs) \<subseteq> set cs"
    by (rule set_dropWhile_subset)
  with 2 show ?case by (auto split: if_splits)
qed

lemma set_replaceHyphenRuns: "set (replaceHyphenRuns s) \<subseteq> set s"
proof (induction s rule: replaceHyphenRuns.induct)
  case 1
  then show ?case by simp
next
  case (2 c cs)
  have "set (dropWhile (\<lambda>d. d = CHR ''-'') cs) \<subseteq> set cs"
    by (rule set_dropWhile_subset)
  with 2 show ?case by (auto split: if_splits)
qed

lemma set_trim: "set (trim s) \<subseteq> set s"
proof -
  have "set (trim s) = set (dropWhile isSpace (rev (dropWhile isSpace s)))"
    by (simp add: trim_def)
  also have "\<dots> \<subseteq> set (rev (dropWhile isSpace s))"
    by (rule set_dropWhile_subset)
  also have "\<dots> \<subseteq> set s"
    using set_dropWhile_subset [of isSpace s] by simp
  finally show ?thesis .
qed

lemma hyphen_not_space: "\<not> isSpace CHR ''-''" "\<not> isUpper CHR ''-''"
  by (simp_all add: isSpace_def isUpper_def)

lemma lowerAlnum_plain: "isLowerAlnum c \<Longrightarrow> \<not> isSpace c \<and> \<not> isUpper c"
  by (auto simp: isLowerAlnum_def isSpace_def isUpper_def Let_def)

lemma deriveSlug_chars:
  assumes "c \<in> set (deriveSlug n)"
  shows "isLowerAlnum c \<or> c = CHR ''-''"
proof -
  let ?f = "filter (\<lambda>c. isLowerAlnum c \<or> isSpace c \<or> c = CHR ''-'') (toLowerCase n)"
  from assms have "c \<in> set (replaceSpaceRuns ?f)"
    using set_trim set_replaceHyphenRuns unfolding deriveSlug_def by blast
  then have "(c \<in> set ?f \<and> \<not> isSpace c) \<or> c = CHR ''-''"
    using set_replaceSpaceRuns [of ?f] by auto
  then show ?thesis by auto
qed

lemma trim_id: "\<forall>c \<in> set s. \<not> isSpace c \<Longrightarrow> trim s = s"
proof -
  assume a: "\<forall>c \<in> set s. \<not> isSpace c"
  then have "dropWhile isSpace s = s"
    by (cases s) auto
  moreover from a have "dropWhile isSpace (rev s) = rev s"
    by (cases "rev s") (auto simp: in_set_conv_decomp dest: arg_cong [where f = set])
  ultimately show ?thesis by (simp add: trim_def)
qed

lemma toLowerCase_id: "\<forall>c \<in> set s. \<not> isUpper c \<Longrightarrow> toLowerCase s = s"
  by (induction s) (auto simp: toLowerCase_def toLowerChar_def)

lemma stored_slug: "trim (toLowerCase (deriveSlug n)) = deriveSlug n"
proof -
  have "\<forall>c \<in> set (deriveSlug n). \<not> isSpace c \<and> \<not> isUpper c"
    using deriveSlug_chars lowerAlnum_plain hyphen_not_space by blast
  then show ?thesis by (simp add: toLowerCase_id trim_id)
qed

lemma toLowerCase_idem: "toLowerCase (toLowerCase s) = toLowerCase s"
proof -
  have "toLowerChar (toLowerChar c) = toLowerChar c" for c
  proof (cases "isUpper c")
    case False
    then show ?thesis by (simp add: toLowerChar_def)
  next
    case True
    then have "of_char c + (32::nat) < 256"
      by (auto simp: isUpper_def Let_def)
    then have "of_char (char_of (of_char c + (32::nat))) = (of_char c + 32 :: nat)"
      by simp
    with True have "\<not> isUpper (char_of (of_char c + (32::nat)))"
      by (auto simp: isUpper_def Let_def)
    then show ?thesis by (simp add: toLowerChar_def)
  qed
  then show ?thesis by (simp add: toLowerCase_def)
qed

lemma update_fresh_tenant:
  "\<forall>t \<in> set ts. tenant_id t \<noteq> tenant_id t1 \<Longrightarrow>
   map (\<lambda>t. if tenant_id t = tenant_id t1 then t3 else t) (ts @ [t1]) = ts @ [t3]"
  by (induction ts) auto

lemma acme_co_valid: "deriveSlug ''Acme Co'' = ''acme-co'' \<and> tenantValid (newTenant e ''acme-co'' ''Acme Co'')"
proof -
  have 1: "deriveSlug ''Acme Co'' = ''acme-co''" by code_simp
  have 2: "trim (toLowerCase ''acme-co'') = ''acme-co''" by code_simp
  have 3: "trim ''Acme Co'' = ''Acme Co''" by code_simp
  have 4: "matches slugPattern ''acme-co''" by code_simp
  show ?thesis
    using 1 2 3 4 by (simp add: tenantValid_def newTenant_def noteLimitValid_def usageValid_def)
qed

text \<open>
  What \<open>register\<close> does. It answers \<open>201\<close> exactly when the lowercased email names no
  user, the slug derived from the organisation name names no tenant, and the new tenant
  and user documents pass their schema validators. It then has stored and returned a
  tenant whose slug is the derived slug, on plan free with note limit 3 and one user
  counted, and a user bound to that tenant with role admin and all six permissions true.
  The name \<open>Acme Co\<close> derives the slug \<open>acme-co\<close> and its tenant document is valid.
\<close>

lemma register_outcome:
  "(fst (fst (register e st em pw n)) = 201 \<longleftrightarrow>
      find (\<lambda>u. user.email u = toLowerCase em) (users st) = None
      \<and> findTenantBySlug st (deriveSlug n) = None
      \<and> tenantValid (newTenant e (deriveSlug n) n)
      \<and> userValid (newAdmin e em pw (newTenant e (deriveSlug n) n)))
   \<and> (fst (fst (register e st em pw n)) = 201 \<and> (\<forall>t \<in> set (tenants st). tenant_id t \<noteq> newTenantId e) \<longrightarrow>
        (\<exists>t u. register e st em pw n =
                 ((201, AuthBody ''Registration successful'' (viewOfUser u) (viewOfTenant t)
                          (generateToken e (tokenPayload u t)) (generateRefreshToken e (tokenPayload u t))),
                  st\<lparr>tenants := tenants st @ [t], users := users st @ [u]\<rparr>)
              \<and> slug t = deriveSlug n \<and> name t = trim n \<and> plan t = Free \<and> noteLimit t = 3
              \<and> tenant.isActive t \<and> status (subscription t) = Active
              \<and> currentUserCount (usage t) = 1 \<and> currentNoteCount (usage t) = 0
              \<and> user.email u = trim (toLowerCase em) \<and> user.password u = bcryptHash e pw
              \<and> user.tenantId u = tenant_id t \<and> user.role u = Admin \<and> user.isActive u
              \<and> user.permissions u = allPermissions))
   \<and> deriveSlug ''Acme Co'' = ''acme-co''
   \<and> tenantValid (newTenant e ''acme-co'' ''Acme Co'')"
proof -
  let ?t0 = "newTenant e (deriveSlug n) n"
  let ?u0 = "newAdmin e em pw ?t0"
  let ?t3 = "incrementUsers 1 ?t0"
  let ?u1 = "userPreSave e True True ?u0"
  have pre: "tenantPreSave True ?t0 = ?t0" "tenantPreSave False ?t3 = ?t3"
    by (simp_all add: tenantPreSave_def newTenant_def)
  have again: "tenantValid ?t3 \<longleftrightarrow> tenantValid ?t0"
    by (simp add: tenantValid_def noteLimitValid_def usageValid_def incrementUsers_def newTenant_def)
  have A: "fst (fst (register e st em pw n)) = 201 \<longleftrightarrow>
      find (\<lambda>u. user.email u = toLowerCase em) (users st) = None
      \<and> findTenantBySlug st (deriveSlug n) = None
      \<and> tenantValid ?t0 \<and> userValid ?u0"
    by (simp add: register_def Let_def tenantSave_def userSave_def pre again deny_def
        registrationServiceError_def)
  have B: "\<exists>t u. register e st em pw n =
                 ((201, AuthBody ''Registration successful'' (viewOfUser u) (viewOfTenant t)
                          (generateToken e (tokenPayload u t)) (generateRefreshToken e (tokenPayload u t))),
                  st\<lparr>tenants := tenants st @ [t], users := users st @ [u]\<rparr>)
              \<and> slug t = deriveSlug n \<and> name t = trim n \<and> plan t = Free \<and> noteLimit t = 3
              \<and> tenant.isActive t \<and> status (subscription t) = Active
              \<and> currentUserCount (usage t) = 1 \<and> currentNoteCount (usage t) = 0
              \<and> user.email u = trim (toLowerCase em) \<and> user.password u = bcryptHash e pw
              \<and> user.tenantId u = tenant_id t \<and> user.role u = Admin \<and> user.isActive u
              \<and> user.permissions u = allPermissions"
    if ok: "fst (fst (register e st em pw n)) = 201"
      and fresh: "\<forall>t \<in> set (tenants st). tenant_id t \<noteq> newTenantId e"
  proof -
    from ok A have c: "find (\<lambda>u. user.email u = toLowerCase em) (users st) = None"
        "findTenantBySlug st (deriveSlug n) = None" "tenantValid ?t0" "userValid ?u0"
      by blast+
    have fresh': "\<forall>t \<in> set (tenants st). tenant_id t \<noteq> tenant_id ?t0"
      using fresh by (simp add: newTenant_def)
    have store: "updateTenant (st\<lparr>tenants := tenants st @ [?t0], users := users st @ [?u1]\<rparr>)
                   (tenant_id ?t0) (\<lambda>_. ?t3)
                 = st\<lparr>tenants := tenants st @ [?t3], users := users st @ [?u1]\<rparr>"
      using update_fresh_tenant [OF fresh', of ?t3] by (simp add: updateTenant_def)
    have reg: "register e st em pw n =
        ((201, AuthBody ''Registration successful'' (viewOfUser ?u1) (viewOfTenant ?t3)
                          (generateToken e (tokenPayload ?u1 ?t3)) (generateRefreshToken e (tokenPayload ?u1 ?t3))),
                  st\<lparr>tenants := tenants st @ [?t3], users := users st @ [?u1]\<rparr>)"
      using c store by (simp add: register_def Let_def tenantSave_def userSave_def pre again)
    have t: "slug ?t3 = deriveSlug n" "name ?t3 = trim n" "plan ?t3 = Free" "noteLimit ?t3 = 3"
      "tenant.isActive ?t3" "status (subscription ?t3) = Active"
      "currentUserCount (usage ?t3) = 1" "currentNoteCount (usage ?t3) = 0"
      by (simp_all add: incrementUsers_def newTenant_def stored_slug)
    have u: "user.email ?u1 = trim (toLowerCase em)" "user.password ?u1 = bcryptHash e pw"
      "user.tenantId ?u1 = tenant_id ?t3" "user.role ?u1 = Admin" "user.isActive ?u1"
      "user.permissions ?u1 = allPermissions"
      by (simp_all add: userPreSave_def newAdmin_def incrementUsers_def newTenant_def
          allPermissions_def toLowerCase_idem Let_def)
    from reg t u show ?thesis by blast
  qed
  from A B acme_co_valid show ?thesis by blast
qed

text \<open>With an address whose top-level domain has two or three letters the registration
  of \<open>Acme Co\<close> goes through as the specification says.\<close>

lemma register_acme_co:
  "fst (fst (register env0 acmeStore ''A@x.com'' ''Abcdef1'' ''Acme Co'')) = 201
   \<and> map (\<lambda>t. (slug t, plan t, noteLimit t)) (tenants (snd (register env0 acmeStore ''A@x.com'' ''Abcdef1'' ''Acme Co'')))
       = [(''acme'', Free, 3), (''acme-co'', Free, 3)]
   \<and> map (\<lambda>u. (user.email u, user.role u, user.permissions u))
        (users (snd (register env0 acmeStore ''A@x.com'' ''Abcdef1'' ''Acme Co'')))
       = [(''alice@acme.com'', Member, user.permissions alice), (''a@x.com'', Admin, allPermissions)]"
proof -
  let ?r = "register env0 acmeStore ''A@x.com'' ''Abcdef1'' ''Acme Co''"
  note T = register_outcome [of env0 acmeStore "''A@x.com''" "''Abcdef1''" "''Acme Co''"]
  have a: "find (\<lambda>u. user.email u = toLowerCase ''A@x.com'') (users acmeStore) = None"
    by code_simp
  have b: "findTenantBySlug acmeStore (deriveSlug ''Acme Co'') = None"
    by code_simp
  have c: "tenantValid (newTenant env0 (deriveSlug ''Acme Co'') ''Acme Co'')"
    using T by simp
  have d: "userValid (newAdmin env0 ''A@x.com'' ''Abcdef1'' (newTenant env0 (deriveSlug ''Acme Co'') ''Acme Co''))"
    by code_simp
  have f: "\<forall>t \<in> set (tenants acmeStore). tenant_id t \<noteq> newTenantId env0"
    by (simp add: acmeStore_def freeTenant_def mockTenant_def env0_def)
  have ok: "fst (fst ?r) = 201"
    using T a b c d by blast
  then obtain t u where r: "snd ?r = acmeStore\<lparr>tenants := tenants acmeStore @ [t], users := users acmeStore @ [u]\<rparr>"
    and t: "slug t = ''acme-co''" "plan t = Free" "noteLimit t = 3"
    and u: "user.email u = trim (toLowerCase ''A@x.com'')" "user.role u = Admin" "user.permissions u = allPermissions"
    using T f by auto
  have e: "trim (toLowerCase ''A@x.com'') = ''a@x.com''" by code_simp
  show ?thesis
    using ok r t u e by (simp add: acmeStore_def freeTenant_def mockTenant_def alice_def)
qed

text \<open>
  Claim C9, where the code departs from it. A registration whose email and derived slug
  are both new and whose tenant document is valid, but whose lowercased email the user
  schema's pattern does not match, saves the tenant, is then rejected on the user
  document, and is answered \<open>500 REGISTRATION_SERVICE_ERROR\<close>: the tenant stays in the
  store without a user, and no admin is created. The pattern ends in
  \<^verbatim>\<open>(\.\w{2,3})+$\<close>, so it matches no address whose top-level domain has more than three
  letters, such as \<open>a@x.test\<close>.
\<close>

theorem register_leaves_tenant_without_admin:
  "find (\<lambda>u. user.email u = toLowerCase em) (users st) = None \<Longrightarrow>
   findTenantBySlug st (deriveSlug n) = None \<Longrightarrow>
   tenantValid (newTenant e (deriveSlug n) n) \<Longrightarrow>
   \<not> matches emailPattern (trim (toLowerCase em)) \<Longrightarrow>
   register e st em pw n =
     ((500, ErrorBody ''Registration service error'' ''REGISTRATION_SERVICE_ERROR'' None),
      st\<lparr>tenants := tenants st @ [newTenant e (deriveSlug n) n]\<rparr>)
   \<and> slug (newTenant e (deriveSlug n) n) = deriveSlug n
   \<and> plan (newTenant e (deriveSlug n) n) = Free \<and> noteLimit (newTenant e (deriveSlug n) n) = 3"
proof -
  let ?t0 = "newTenant e (deriveSlug n) n"
  assume a: "find (\<lambda>u. user.email u = toLowerCase em) (users st) = None"
    and b: "findTenantBySlug st (deriveSlug n) = None"
    and c: "tenantValid ?t0"
    and d: "\<not> matches emailPattern (trim (toLowerCase em))"
  have pre: "tenantPreSave True ?t0 = ?t0"
    by (simp add: tenantPreSave_def newTenant_def)
  have "\<not> userValid (newAdmin e em pw ?t0)"
    using d by (simp add: userValid_def newAdmin_def toLowerCase_idem)
  then have "register e st em pw n =
     ((500, ErrorBody ''Registration service error'' ''REGISTRATION_SERVICE_ERROR'' None),
      st\<lparr>tenants := tenants st @ [?t0]\<rparr>)"
    using a b c
    by (simp add: register_def Let_def tenantSave_def userSave_def pre registrationServiceError_def deny_def)
  moreover have "slug ?t0 = deriveSlug n" "plan ?t0 = Free" "noteLimit ?t0 = 3"
    by (simp_all add: newTenant_def stored_slug)
  ultimately show ?thesis by simp
qed

theorem register_leaves_tenant_without_admin_witness:
  "fst (register env0 emptyStore ''a@x.test'' ''Abcdef1'' ''Acme Co'')
     = (500, ErrorBody ''Registration service error'' ''REGISTRATION_SERVICE_ERROR'' None)
   \<and> users (snd (register env0 emptyStore ''a@x.test'' ''Abcdef1'' ''Acme Co'')) = []
   \<and> map (\<lambda>t. (slug t, plan t, noteLimit t))
        (tenants (snd (register env0 emptyStore ''a@x.test'' ''Abcdef1'' ''Acme Co'')))
       = [(''acme-co'', Free, 3)]
   \<and> \<not> matches emailPattern ''a@x.test'' \<and> matches emailPattern ''a@x.com''"
proof -
  have a: "find (\<lambda>u. user.email u = toLowerCase ''a@x.test'') (users emptyStore) = None"
    by (simp add: emptyStore_def)
  have b: "findTenantBySlug emptyStore (deriveSlug ''Acme Co'') = None"
    by (simp add: emptyStore_def findTenantBySlug_def)
  have s: "deriveSlug ''Acme Co'' = ''acme-co''"
    by code_simp
  have c: "tenantValid (newTenant env0 (deriveSlug ''Acme Co'') ''Acme Co'')"
    using acme_co_valid [of env0] by (simp add: s)
  have m: "trim (toLowerCase ''a@x.test'') = ''a@x.test''"
    by code_simp
  have d: "\<not> matches emailPattern ''a@x.test''"
    by code_simp
  have g: "matches emailPattern ''a@x.com''"
    by code_simp
  from d have d': "\<not> matches emailPattern (trim (toLowerCase ''a@x.test''))"
    by (simp add: m)
  from register_leaves_tenant_without_admin [OF a b c d', of "''Abcdef1''"] s d g
  show ?thesis by (simp add: emptyStore_def)
qed

end
